theory Spec2Isabelle
  imports Main
begin

section \<open>Messages, events and exceptions\<close>

text \<open>
  The group chat manager of \<^verbatim>\<open>_base_group_chat_manager.py\<close> is embedded as a
  state-passing program. Chat messages and agent events are values of one datatype;
  the two kinds the manager builds itself (\<^verbatim>\<open>StopMessage\<close> and
  \<^verbatim>\<open>SelectSpeakerEvent\<close>) have their own constructors, every other message is a
  \<open>TextMessage\<close> with a content and a source.
\<close>

datatype message =
    TextMessage string string
  | StopMessage string string
  | SelectSpeakerEvent "string list" string

text \<open>
  Python exceptions. \<^verbatim>\<open>except Exception\<close> catches every constructor but
  \<open>CancelledError\<close>, which derives from \<^verbatim>\<open>BaseException\<close>.
\<close>

datatype exn =
    ValueError string
  | RuntimeError string
  | OtherException string
  | CancelledError

fun is_Exception :: "exn \<Rightarrow> bool" where
  "is_Exception CancelledError = False"
| "is_Exception _ = True"

datatype serializable_exception = SerializableException exn

definition from_exception :: "exn \<Rightarrow> serializable_exception" where
  "from_exception e = SerializableException e"

datatype termination_event = GroupChatTermination message "serializable_exception option"

text \<open>What the manager publishes on the bus.\<close>

datatype event =
    GroupChatStart "message list"
  | GroupChatMessage message
  | GroupChatRequestPublish
  | TerminationEvent termination_event

text \<open>
  The output message queue holds messages and termination events
  (\<^verbatim>\<open>asyncio.Queue[BaseAgentEvent | BaseChatMessage | GroupChatTermination]\<close>).
\<close>

datatype queue_item = QMessage message | QTermination termination_event

fun is_termination :: "queue_item \<Rightarrow> bool" where
  "is_termination (QTermination _) = True"
| "is_termination (QMessage _) = False"

definition terminations :: "queue_item list \<Rightarrow> nat" where
  "terminations q = length (filter is_termination q)"

text \<open>
  Everything the manager does to the outside, in the order it does it: calls of the
  pluggable collaborators, messages published on a topic, and items put in the output
  queue. The source has no such field; it is the record of the awaits of a handler.
\<close>

datatype effect =
    Validate "message list option"
  | Evaluate "message list"
  | ResetCondition
  | Select "message list"
  | ResetHook
  | Publish string event
  | Put queue_item

fun is_Select :: "effect \<Rightarrow> bool" where
  "is_Select (Select _) = True"
| "is_Select _ = False"

fun is_Evaluate :: "effect \<Rightarrow> bool" where
  "is_Evaluate (Evaluate _) = True"
| "is_Evaluate _ = False"

fun is_request :: "effect \<Rightarrow> bool" where
  "is_request (Publish _ GroupChatRequestPublish) = True"
| "is_request _ = False"

section \<open>The manager and its collaborators\<close>

text \<open>What \<^verbatim>\<open>select_speaker\<close> returns: \<^verbatim>\<open>List[str] | str\<close>.\<close>

datatype selection = Single string | Many "string list"

text \<open>A single name is turned into a list of one name.\<close>

fun selected_names :: "selection \<Rightarrow> string list" where
  "selected_names (Single speaker_name) = [speaker_name]"
| "selected_names (Many speaker_names) = speaker_names"

text \<open>
  The collaborators the base class does not implement: the termination condition
  (called, asked for \<^verbatim>\<open>terminated\<close>, reset) with its own state \<open>'tc\<close>, and
  the abstract methods \<^verbatim>\<open>validate_group_state\<close>, \<^verbatim>\<open>select_speaker\<close>
  and \<^verbatim>\<open>reset\<close> of the subclass, which work on the subclass's own state \<open>'s\<close>.
  A call either returns or raises, and leaves a new collaborator state in both cases.
\<close>

record ('tc, 's) hooks =
  tc_call :: "'tc \<Rightarrow> message list \<Rightarrow> (exn + message option) \<times> 'tc"
  tc_terminated :: "'tc \<Rightarrow> bool"
  tc_reset :: "'tc \<Rightarrow> 'tc"
  validate_group_state :: "'s \<Rightarrow> message list option \<Rightarrow> exn option \<times> 's"
  select_speaker :: "'s \<Rightarrow> message list \<Rightarrow> (exn + selection) \<times> 's"
  reset_sub :: "'s \<Rightarrow> 's"

record ('tc, 's) manager =
  name :: string
  group_topic_type :: string
  output_topic_type :: string
  participant_names :: "string list"
  participant_name_to_topic_type :: "string \<rightharpoonup> string"
  participant_descriptions :: "string list"
  message_thread :: "message list"
  output_message_queue :: "queue_item list"
  termination_condition :: "'tc option"
  max_turns :: "int option"
  current_turn :: int
  emit_team_events :: bool
  active_speakers :: "string list"
  sub :: 's
  trace :: "effect list"

section \<open>Construction\<close>

record ('tc, 's) config =
  cfg_name :: string
  cfg_group_topic_type :: string
  cfg_output_topic_type :: string
  cfg_participant_topic_types :: "string list"
  cfg_participant_names :: "string list"
  cfg_participant_descriptions :: "string list"
  cfg_output_message_queue :: "queue_item list"
  cfg_termination_condition :: "'tc option"
  cfg_max_turns :: "int option"
  cfg_emit_team_events :: bool
  cfg_sub :: 's

text \<open>
  \<^verbatim>\<open>{name: topic_type for name, topic_type in zip(names, topics, strict=True)}\<close>:
  \<^verbatim>\<open>zip(strict=True)\<close> raises \<^verbatim>\<open>ValueError\<close> when the lists differ in length,
  and a later pair overwrites an earlier one with the same name.
\<close>

fun dict_of_pairs :: "(string \<times> string) list \<Rightarrow> (string \<rightharpoonup> string) \<Rightarrow> (string \<rightharpoonup> string)" where
  "dict_of_pairs [] d = d"
| "dict_of_pairs ((k, v) # kvs) d = dict_of_pairs kvs (d(k \<mapsto> v))"

definition zip_strict :: "string list \<Rightarrow> string list \<Rightarrow> exn + (string \<times> string) list" where
  "zip_strict xs ys =
     (if length xs < length ys then Inl (ValueError ''zip() argument 2 is longer than argument 1'')
      else if length ys < length xs then Inl (ValueError ''zip() argument 2 is shorter than argument 1'')
      else Inr (zip xs ys))"

text \<open>\<^verbatim>\<open>BaseGroupChatManager.__init__\<close>, the checks in the order of the source.\<close>

definition init :: "('tc, 's) config \<Rightarrow> exn + ('tc, 's) manager" where
  "init c =
     (if (case cfg_max_turns c of None \<Rightarrow> False | Some n \<Rightarrow> n \<le> 0) then
        Inl (ValueError ''The maximum number of turns must be greater than 0.'')
      else if length (cfg_participant_topic_types c) \<noteq> length (cfg_participant_descriptions c) then
        Inl (ValueError ''The number of participant topic types, agent types, and descriptions must be the same.'')
      else if length (remdups (cfg_participant_topic_types c)) \<noteq> length (cfg_participant_topic_types c) then
        Inl (ValueError ''The participant topic types must be unique.'')
      else if cfg_group_topic_type c \<in> set (cfg_participant_topic_types c) then
        Inl (ValueError ''The group topic type must not be in the participant topic types.'')
      else
        (case zip_strict (cfg_participant_names c) (cfg_participant_topic_types c) of
           Inl e \<Rightarrow> Inl e
         | Inr pairs \<Rightarrow>
             Inr \<lparr> name = cfg_name c,
                   group_topic_type = cfg_group_topic_type c,
                   output_topic_type = cfg_output_topic_type c,
                   participant_names = cfg_participant_names c,
                   participant_name_to_topic_type = dict_of_pairs pairs Map.empty,
                   participant_descriptions = cfg_participant_descriptions c,
                   message_thread = [],
                   output_message_queue = cfg_output_message_queue c,
                   termination_condition = cfg_termination_condition c,
                   max_turns = cfg_max_turns c,
                   current_turn = 0,
                   emit_team_events = cfg_emit_team_events c,
                   active_speakers = [],
                   sub = cfg_sub c,
                   trace = [] \<rparr>))"

section \<open>Signalling termination\<close>

definition publish_message :: "event \<Rightarrow> string \<Rightarrow> ('tc, 's) manager \<Rightarrow> ('tc, 's) manager" where
  "publish_message ev topic m = m\<lparr>trace := trace m @ [Publish topic ev]\<rparr>"

definition put :: "queue_item \<Rightarrow> ('tc, 's) manager \<Rightarrow> ('tc, 's) manager" where
  "put item m =
     m\<lparr>output_message_queue := output_message_queue m @ [item], trace := trace m @ [Put item]\<rparr>"

definition signal_termination :: "message \<Rightarrow> ('tc, 's) manager \<Rightarrow> ('tc, 's) manager" where
  "signal_termination msg m =
     (let termination_event = GroupChatTermination msg None
      in put (QTermination termination_event)
           (publish_message (TerminationEvent termination_event) (output_topic_type m) m))"

definition signal_termination_with_error ::
  "serializable_exception \<Rightarrow> ('tc, 's) manager \<Rightarrow> ('tc, 's) manager" where
  "signal_termination_with_error err m =
     (let termination_event =
            GroupChatTermination (StopMessage ''An error occurred in the group chat.'' (name m)) (Some err)
      in put (QTermination termination_event)
           (publish_message (TerminationEvent termination_event) (output_topic_type m) m))"

section \<open>Applying the termination condition\<close>

text \<open>Python's \<^verbatim>\<open>str\<close> of an integer, for the f-string of the stop message.\<close>

fun str_nat :: "nat \<Rightarrow> string" where
  "str_nat n =
     (if n < 10 then [''0123456789'' ! n]
      else str_nat (n div 10) @ [''0123456789'' ! (n mod 10)])"

declare str_nat.simps [simp del]

definition str_int :: "int \<Rightarrow> string" where
  "str_int i = (if i < 0 then CHR ''-'' # str_nat (nat (- i)) else str_nat (nat i))"

definition max_turns_message :: "int \<Rightarrow> string" where
  "max_turns_message n = ''Maximum number of turns '' @ str_int n @ '' reached.''"

text \<open>
  The second half of \<^verbatim>\<open>_apply_termination_condition\<close>: the turn count and the
  maximum number of turns.
\<close>

definition apply_max_turns :: "('tc, 's) hooks \<Rightarrow> bool \<Rightarrow> ('tc, 's) manager \<Rightarrow> bool \<times> ('tc, 's) manager" where
  "apply_max_turns h increment_turn_count m =
     (let m1 = (if increment_turn_count then m\<lparr>current_turn := current_turn m + 1\<rparr> else m)
      in case max_turns m1 of
           None \<Rightarrow> (False, m1)
         | Some n \<Rightarrow>
             if current_turn m1 \<ge> n then
               (let stop_message = StopMessage (max_turns_message n) (name m1);
                    m2 = (case termination_condition m1 of
                            None \<Rightarrow> m1
                          | Some tc \<Rightarrow> m1\<lparr>termination_condition := Some (tc_reset h tc),
                                           trace := trace m1 @ [ResetCondition]\<rparr>);
                    m3 = m2\<lparr>current_turn := 0\<rparr>
                in (True, signal_termination stop_message m3))
             else (False, m1))"

text \<open>
  \<^verbatim>\<open>_apply_termination_condition\<close>. The call of the condition may raise; the
  exception leaves the handler's state as it is at that point.
\<close>

definition apply_termination_condition ::
  "('tc, 's) hooks \<Rightarrow> message list \<Rightarrow> bool \<Rightarrow> ('tc, 's) manager \<Rightarrow> (exn + bool) \<times> ('tc, 's) manager" where
  "apply_termination_condition h delta increment_turn_count m =
     (case termination_condition m of
        None \<Rightarrow> (case apply_max_turns h increment_turn_count m of (b, m') \<Rightarrow> (Inr b, m'))
      | Some tc \<Rightarrow>
          (case tc_call h tc delta of
             (Inl e, tc') \<Rightarrow>
               (Inl e, m\<lparr>termination_condition := Some tc', trace := trace m @ [Evaluate delta]\<rparr>)
           | (Inr (Some stop_message), tc') \<Rightarrow>
               (let m1 = m\<lparr>termination_condition := Some (tc_reset h tc'),
                           trace := trace m @ [Evaluate delta, ResetCondition]\<rparr>;
                    m2 = m1\<lparr>current_turn := 0\<rparr>
                in (Inr True, signal_termination stop_message m2))
           | (Inr None, tc') \<Rightarrow>
               (case apply_max_turns h increment_turn_count
                       (m\<lparr>termination_condition := Some tc', trace := trace m @ [Evaluate delta]\<rparr>) of
                  (b, m') \<Rightarrow> (Inr b, m'))))"

section \<open>Speaker transition\<close>

definition log_speaker_selection :: "string list \<Rightarrow> ('tc, 's) manager \<Rightarrow> ('tc, 's) manager" where
  "log_speaker_selection speaker_names m =
     (let select_msg = SelectSpeakerEvent speaker_names (name m)
      in if emit_team_events m then
           put (QMessage select_msg) (publish_message (GroupChatMessage select_msg) (output_topic_type m) m)
         else m)"

text \<open>The first loop of \<^verbatim>\<open>_transition_to_next_speakers\<close>: the first name that is
  not a key of the registry raises.\<close>

definition speaker_not_found :: "string \<Rightarrow> exn" where
  "speaker_not_found speaker_name =
     RuntimeError (''Speaker '' @ speaker_name @ '' not found in participant names.'')"

fun check_speakers :: "(string \<rightharpoonup> string) \<Rightarrow> string list \<Rightarrow> exn option" where
  "check_speakers d [] = None"
| "check_speakers d (speaker_name # rest) =
     (if d speaker_name = None then Some (speaker_not_found speaker_name)
      else check_speakers d rest)"

text \<open>The second loop: a request to each speaker's topic, and the name appended to the
  active speakers. A name that is no key raises \<^verbatim>\<open>KeyError\<close>; the first loop has
  excluded it.\<close>

fun request_speakers :: "string list \<Rightarrow> ('tc, 's) manager \<Rightarrow> exn option \<times> ('tc, 's) manager" where
  "request_speakers [] m = (None, m)"
| "request_speakers (speaker_name # rest) m =
     (case participant_name_to_topic_type m speaker_name of
        None \<Rightarrow> (Some (OtherException (''KeyError: '' @ speaker_name)), m)
      | Some speaker_topic_type \<Rightarrow>
          request_speakers rest
            ((publish_message GroupChatRequestPublish speaker_topic_type m)
               \<lparr>active_speakers := active_speakers m @ [speaker_name]\<rparr>))"

definition transition_to_next_speakers ::
  "('tc, 's) hooks \<Rightarrow> ('tc, 's) manager \<Rightarrow> exn option \<times> ('tc, 's) manager" where
  "transition_to_next_speakers h m =
     (case select_speaker h (sub m) (message_thread m) of
        (Inl e, s') \<Rightarrow> (Some e, m\<lparr>sub := s', trace := trace m @ [Select (message_thread m)]\<rparr>)
      | (Inr sel, s') \<Rightarrow>
          (let m1 = m\<lparr>sub := s', trace := trace m @ [Select (message_thread m)]\<rparr>;
               speaker_names = selected_names sel
           in case check_speakers (participant_name_to_topic_type m1) speaker_names of
                Some e \<Rightarrow> (Some e, m1)
              | None \<Rightarrow> request_speakers speaker_names (log_speaker_selection speaker_names m1)))"

section \<open>The handlers\<close>

record group_chat_start =
  messages :: "message list option"
  output_task_messages :: bool

text \<open>
  \<^verbatim>\<open>GroupChatAgentResponse\<close> carries \<^verbatim>\<open>response.inner_messages\<close> (which may be
  \<^verbatim>\<open>None\<close>), \<^verbatim>\<open>response.chat_message\<close> and \<^verbatim>\<open>name\<close>;
  \<^verbatim>\<open>GroupChatTeamResponse\<close> carries \<^verbatim>\<open>result.messages\<close> and \<^verbatim>\<open>name\<close>.
\<close>

datatype response_message =
    GroupChatAgentResponse "message list option" message string
  | GroupChatTeamResponse "message list" string

fun response_name :: "response_message \<Rightarrow> string" where
  "response_name (GroupChatAgentResponse inner chat nm) = nm"
| "response_name (GroupChatTeamResponse msgs nm) = nm"

fun response_delta :: "response_message \<Rightarrow> message list" where
  "response_delta (GroupChatAgentResponse inner chat nm) =
     (case inner of None \<Rightarrow> [] | Some inner_messages \<Rightarrow> inner_messages) @ [chat]"
| "response_delta (GroupChatTeamResponse msgs nm) = msgs"

definition update_message_thread :: "message list \<Rightarrow> ('tc, 's) manager \<Rightarrow> ('tc, 's) manager" where
  "update_message_thread msgs m = m\<lparr>message_thread := message_thread m @ msgs\<rparr>"

text \<open>The test at the head of \<^verbatim>\<open>handle_start\<close>: has the conversation already
  terminated?\<close>

definition already_terminated :: "('tc, 's) hooks \<Rightarrow> ('tc, 's) manager \<Rightarrow> bool" where
  "already_terminated h m =
     (case termination_condition m of None \<Rightarrow> False | Some tc \<Rightarrow> tc_terminated h tc)"

fun put_all :: "message list \<Rightarrow> ('tc, 's) manager \<Rightarrow> ('tc, 's) manager" where
  "put_all [] m = m"
| "put_all (msg # msgs) m = put_all msgs (put (QMessage msg) m)"

text \<open>The middle of \<^verbatim>\<open>handle_start\<close>, for start messages that are not
  \<^verbatim>\<open>None\<close>: log them on the output topic, put them in the output queue if asked
  to, relay them on the group topic and append them to the thread.\<close>

definition relay_start_messages :: "message list \<Rightarrow> bool \<Rightarrow> ('tc, 's) manager \<Rightarrow> ('tc, 's) manager" where
  "relay_start_messages msgs output_task m1 =
     (let m2 = publish_message (GroupChatStart msgs) (output_topic_type m1) m1;
          m3 = (if output_task then put_all msgs m2 else m2);
          m4 = publish_message (GroupChatStart msgs) (group_topic_type m3) m3
      in update_message_thread msgs m4)"

text \<open>\<^verbatim>\<open>handle_start\<close>. The handler has no \<^verbatim>\<open>try\<close>: what a collaborator raises
  leaves the handler as it is.\<close>

definition handle_start ::
  "('tc, 's) hooks \<Rightarrow> group_chat_start \<Rightarrow> ('tc, 's) manager \<Rightarrow> exn option \<times> ('tc, 's) manager" where
  "handle_start h message m =
     (if already_terminated h m then
        (None, signal_termination (StopMessage ''The group chat has already terminated.'' (name m)) m)
      else
        (case validate_group_state h (sub m) (messages message) of
           (Some e, s') \<Rightarrow> (Some e, m\<lparr>sub := s', trace := trace m @ [Validate (messages message)]\<rparr>)
         | (None, s') \<Rightarrow>
             (let m1 = m\<lparr>sub := s', trace := trace m @ [Validate (messages message)]\<rparr>
              in case messages message of
                   None \<Rightarrow> transition_to_next_speakers h m1
                 | Some msgs \<Rightarrow>
                     (case apply_termination_condition h msgs False
                             (relay_start_messages msgs (output_task_messages message) m1) of
                        (Inl e, m6) \<Rightarrow> (Some e, m6)
                      | (Inr True, m6) \<Rightarrow> (None, m6)
                      | (Inr False, m6) \<Rightarrow> transition_to_next_speakers h m6))))"

text \<open>The body of the \<^verbatim>\<open>try\<close> of \<^verbatim>\<open>handle_agent_response\<close>.
  \<^verbatim>\<open>list.remove\<close> takes the first occurrence away and raises \<^verbatim>\<open>ValueError\<close>
  when there is none.\<close>

definition handle_agent_response_try ::
  "('tc, 's) hooks \<Rightarrow> response_message \<Rightarrow> ('tc, 's) manager \<Rightarrow> exn option \<times> ('tc, 's) manager" where
  "handle_agent_response_try h message m =
     (let delta = response_delta message;
          m1 = update_message_thread delta m
      in if response_name message \<in> set (active_speakers m1) then
           (let m2 = m1\<lparr>active_speakers := remove1 (response_name message) (active_speakers m1)\<rparr>
            in if length (active_speakers m2) > 0 then (None, m2)
               else
                 (case apply_termination_condition h delta True m2 of
                    (Inl e, m3) \<Rightarrow> (Some e, m3)
                  | (Inr True, m3) \<Rightarrow> (None, m3)
                  | (Inr False, m3) \<Rightarrow> transition_to_next_speakers h m3))
         else (Some (ValueError ''list.remove(x): x not in list''), m1))"

text \<open>The \<^verbatim>\<open>except Exception\<close> clause of \<^verbatim>\<open>handle_agent_response\<close>: it
  signals the termination with the error. A \<^verbatim>\<open>BaseException\<close> that is no
  \<^verbatim>\<open>Exception\<close> passes it by.\<close>

definition except_Exception :: "exn \<Rightarrow> ('tc, 's) manager \<Rightarrow> ('tc, 's) manager" where
  "except_Exception e m =
     (if is_Exception e then signal_termination_with_error (from_exception e) m else m)"

text \<open>\<^verbatim>\<open>handle_agent_response\<close>: what the \<^verbatim>\<open>try\<close> raises is raised again after
  the \<^verbatim>\<open>except\<close> clause.\<close>

definition handle_agent_response ::
  "('tc, 's) hooks \<Rightarrow> response_message \<Rightarrow> ('tc, 's) manager \<Rightarrow> exn option \<times> ('tc, 's) manager" where
  "handle_agent_response h message m =
     (case handle_agent_response_try h message m of
        (None, m') \<Rightarrow> (None, m')
      | (Some e, m') \<Rightarrow> (Some e, except_Exception e m'))"

definition handle_group_chat_message :: "message \<Rightarrow> ('tc, 's) manager \<Rightarrow> exn option \<times> ('tc, 's) manager" where
  "handle_group_chat_message msg m = (None, put (QMessage msg) m)"

definition handle_group_chat_error ::
  "serializable_exception \<Rightarrow> ('tc, 's) manager \<Rightarrow> exn option \<times> ('tc, 's) manager" where
  "handle_group_chat_error err m = (None, signal_termination_with_error err m)"

text \<open>
  Modelled from the spec: the abstract method \<^verbatim>\<open>reset\<close> that \<^verbatim>\<open>handle_reset\<close>
  awaits has no body in the base class. The spec's Reset transition: invoke a pluggable
  reset hook, clear the thread, zero the turn counter, clear the active speakers; the
  termination condition is left as it is.
\<close>

definition handle_reset :: "('tc, 's) hooks \<Rightarrow> ('tc, 's) manager \<Rightarrow> exn option \<times> ('tc, 's) manager" where
  "handle_reset h m =
     (None, m\<lparr>sub := reset_sub h (sub m), message_thread := [], current_turn := 0,
              active_speakers := [], trace := trace m @ [ResetHook]\<rparr>)"

definition handle_pause :: "('tc, 's) manager \<Rightarrow> exn option \<times> ('tc, 's) manager" where
  "handle_pause m = (None, m)"

definition handle_resume :: "('tc, 's) manager \<Rightarrow> exn option \<times> ('tc, 's) manager" where
  "handle_resume m = (None, m)"

text \<open>The message kinds the manager has a handler for, and the dispatch on them.\<close>

datatype inbound =
    InStart group_chat_start
  | InResponse response_message
  | InMessage message
  | InError serializable_exception
  | InReset
  | InPause
  | InResume

fun handle :: "('tc, 's) hooks \<Rightarrow> inbound \<Rightarrow> ('tc, 's) manager \<Rightarrow> exn option \<times> ('tc, 's) manager" where
  "handle h (InStart message) m = handle_start h message m"
| "handle h (InResponse message) m = handle_agent_response h message m"
| "handle h (InMessage msg) m = handle_group_chat_message msg m"
| "handle h (InError err) m = handle_group_chat_error err m"
| "handle h InReset m = handle_reset h m"
| "handle h InPause m = handle_pause m"
| "handle h InResume m = handle_resume m"

text \<open>A sequence of messages, handled one after the other; a handler that raises does
  not stop the next message from being handled.\<close>

fun run :: "('tc, 's) hooks \<Rightarrow> inbound list \<Rightarrow> ('tc, 's) manager \<Rightarrow> ('tc, 's) manager" where
  "run h [] m = m"
| "run h (x # xs) m = run h xs (snd (handle h x m))"

section \<open>Concrete collaborators\<close>

text \<open>
  A termination condition that stops when a message has the content \<open>DONE\<close>. Its
  state is its \<^verbatim>\<open>terminated\<close> flag; called when terminated, it raises. The
  validator accepts everything, and the speaker selector returns the selection that is
  the subclass's state.
\<close>

fun mentions_done :: "message \<Rightarrow> bool" where
  "mentions_done (TextMessage c s) = (c = ''DONE'')"
| "mentions_done _ = False"

definition done_call :: "bool \<Rightarrow> message list \<Rightarrow> (exn + message option) \<times> bool" where
  "done_call t delta =
     (if t then (Inl (OtherException ''TerminatedException''), t)
      else if list_ex mentions_done delta then
        (Inr (Some (StopMessage ''Text DONE mentioned'' ''TextMentionTermination'')), True)
      else (Inr None, False))"

definition fixed_hooks :: "(bool, selection) hooks" where
  "fixed_hooks =
     \<lparr> tc_call = done_call,
       tc_terminated = (\<lambda>t. t),
       tc_reset = (\<lambda>t. False),
       validate_group_state = (\<lambda>s msgs. (None, s)),
       select_speaker = (\<lambda>s thread. (Inr s, s)),
       reset_sub = (\<lambda>s. s) \<rparr>"

text \<open>The same collaborators with a validator that rejects every start.\<close>

definition rejecting_hooks :: "(bool, selection) hooks" where
  "rejecting_hooks =
     fixed_hooks\<lparr>validate_group_state := (\<lambda>s msgs. (Some (ValueError ''invalid group state''), s))\<rparr>"

text \<open>Participants \<open>X\<close> on topic \<open>tx\<close> and \<open>Y\<close> on topic \<open>ty\<close>.\<close>

definition xy_config :: "bool option \<Rightarrow> int option \<Rightarrow> selection \<Rightarrow> (bool, selection) config" where
  "xy_config tc mt sel =
     \<lparr> cfg_name = ''manager'',
       cfg_group_topic_type = ''group'',
       cfg_output_topic_type = ''output'',
       cfg_participant_topic_types = [''tx'', ''ty''],
       cfg_participant_names = [''X'', ''Y''],
       cfg_participant_descriptions = [''dx'', ''dy''],
       cfg_output_message_queue = [],
       cfg_termination_condition = tc,
       cfg_max_turns = mt,
       cfg_emit_team_events = False,
       cfg_sub = sel \<rparr>"

text \<open>The manager that \<open>init\<close> builds from \<open>xy_config\<close>.\<close>

definition xy_manager :: "bool option \<Rightarrow> int option \<Rightarrow> selection \<Rightarrow> (bool, selection) manager" where
  "xy_manager tc mt sel =
     \<lparr> name = ''manager'',
       group_topic_type = ''group'',
       output_topic_type = ''output'',
       participant_names = [''X'', ''Y''],
       participant_name_to_topic_type = [''X'' \<mapsto> ''tx'', ''Y'' \<mapsto> ''ty''],
       participant_descriptions = [''dx'', ''dy''],
       message_thread = [],
       output_message_queue = [],
       termination_condition = tc,
       max_turns = mt,
       current_turn = 0,
       emit_team_events = False,
       active_speakers = [],
       sub = sel,
       trace = [] \<rparr>"

text \<open>Messages for the participants above: a start with one task message, a start whose
  message is \<open>DONE\<close>, a start without messages, and the replies of \<open>X\<close> and \<open>Y\<close>.\<close>

definition task_start :: group_chat_start where
  "task_start = \<lparr>messages = Some [TextMessage ''task'' ''user''], output_task_messages = True\<rparr>"

definition done_start :: group_chat_start where
  "done_start = \<lparr>messages = Some [TextMessage ''DONE'' ''user''], output_task_messages = True\<rparr>"

definition empty_start :: group_chat_start where
  "empty_start = \<lparr>messages = None, output_task_messages = False\<rparr>"

definition x_reply :: response_message where
  "x_reply = GroupChatAgentResponse (Some [TextMessage ''thinking'' ''X'']) (TextMessage ''from X'' ''X'') ''X''"

definition y_reply :: response_message where
  "y_reply = GroupChatTeamResponse [TextMessage ''from Y'' ''Y''] ''Y''"

section \<open>Construction succeeds exactly on valid configurations\<close>

lemma remdups_shorter_iff: "length (remdups xs) \<noteq> length xs \<longleftrightarrow> \<not> distinct xs"
  by (metis distinct_remdups length_remdups_eq remdups_id_iff_distinct)

text \<open>
  C4. Construction raises exactly when the configuration is invalid: the participant
  topics have a duplicate, or the lists of topics, names and descriptions are not all of
  the same length, or the group topic is one of the participant topics, or a maximum
  number of turns is given that is not strictly positive. Every other configuration
  yields a manager.
\<close>

theorem init_fails_iff_invalid:
  "((\<exists>e. init c = Inl e) \<longleftrightarrow>
      (\<not> distinct (cfg_participant_topic_types c)
       \<or> \<not> (length (cfg_participant_topic_types c) = length (cfg_participant_names c)
            \<and> length (cfg_participant_names c) = length (cfg_participant_descriptions c))
       \<or> cfg_group_topic_type c \<in> set (cfg_participant_topic_types c)
       \<or> (\<exists>n. cfg_max_turns c = Some n \<and> n \<le> 0)))
   \<and> ((\<exists>m. init c = Inr m) \<longleftrightarrow>
      (distinct (cfg_participant_topic_types c)
       \<and> length (cfg_participant_topic_types c) = length (cfg_participant_names c)
       \<and> length (cfg_participant_names c) = length (cfg_participant_descriptions c)
       \<and> cfg_group_topic_type c \<notin> set (cfg_participant_topic_types c)
       \<and> (\<forall>n. cfg_max_turns c = Some n \<longrightarrow> 0 < n)))"
proof -
  have d: "length (remdups (cfg_participant_topic_types c)) \<noteq> length (cfg_participant_topic_types c)
             \<longleftrightarrow> \<not> distinct (cfg_participant_topic_types c)"
    by (rule remdups_shorter_iff)
  show ?thesis
    unfolding init_def zip_strict_def d
    by (cases "cfg_max_turns c") (auto split: if_splits)
qed

theorem init_fails_iff_invalid_witness:
  "(\<exists>m. init (xy_config None (Some 1) (Single ''X'')) = Inr m)
   \<and> (\<exists>e. init (xy_config None (Some 0) (Single ''X'')) = Inl e)
   \<and> (\<exists>e. init ((xy_config None None (Single ''X''))\<lparr>cfg_participant_names := [''X'']\<rparr>) = Inl e)
   \<and> (\<exists>e. init ((xy_config None None (Single ''X''))\<lparr>cfg_participant_topic_types := [''tx'', ''tx'']\<rparr>) = Inl e)
   \<and> (\<exists>e. init ((xy_config None None (Single ''X''))\<lparr>cfg_group_topic_type := ''ty''\<rparr>) = Inl e)"
  using init_fails_iff_invalid [of "xy_config None (Some 1) (Single ''X'')"]
    init_fails_iff_invalid [of "xy_config None (Some 0) (Single ''X'')"]
    init_fails_iff_invalid [of "(xy_config None None (Single ''X''))\<lparr>cfg_participant_names := [''X'']\<rparr>"]
    init_fails_iff_invalid [of "(xy_config None None (Single ''X''))\<lparr>cfg_participant_topic_types := [''tx'', ''tx'']\<rparr>"]
    init_fails_iff_invalid [of "(xy_config None None (Single ''X''))\<lparr>cfg_group_topic_type := ''ty''\<rparr>"]
  by (simp add: xy_config_def)

lemma init_xy_config:
  "0 < n \<Longrightarrow> init (xy_config tc (Some n) sel) = Inr (xy_manager tc (Some n) sel)"
  "init (xy_config tc None sel) = Inr (xy_manager tc None sel)"
  by (simp_all add: init_def xy_config_def xy_manager_def zip_strict_def)

section \<open>What each operation changes\<close>

lemmas emit_defs = signal_termination_def signal_termination_with_error_def put_def
  publish_message_def Let_def

lemma terminations_append [simp]: "terminations (q @ r) = terminations q + terminations r"
  by (simp add: terminations_def)

lemma terminations_simps [simp]:
  "terminations [] = 0"
  "terminations (QTermination ev # q) = Suc (terminations q)"
  "terminations (QMessage msg # q) = terminations q"
  by (simp_all add: terminations_def)

lemma apply_max_turns_False:
  assumes "apply_max_turns h inc m = (False, m')"
  shows "m' = (if inc then m\<lparr>current_turn := current_turn m + 1\<rparr> else m)"
    and "\<And>k. max_turns m = Some k \<Longrightarrow> current_turn m' < k"
  using assms
  by (auto simp: apply_max_turns_def Let_def split: option.splits if_splits)

lemma apply_max_turns_True:
  assumes "apply_max_turns h inc m = (True, m')"
  shows "\<exists>k. max_turns m = Some k \<and> k \<le> (if inc then current_turn m + 1 else current_turn m)
           \<and> m' = m\<lparr>current_turn := 0,
                    termination_condition := map_option (tc_reset h) (termination_condition m),
                    output_message_queue := output_message_queue m
                       @ [QTermination (GroupChatTermination (StopMessage (max_turns_message k) (name m)) None)],
                    trace := trace m @ (case termination_condition m of None \<Rightarrow> [] | Some tc \<Rightarrow> [ResetCondition])
                       @ [Publish (output_topic_type m)
                            (TerminationEvent (GroupChatTermination (StopMessage (max_turns_message k) (name m)) None)),
                          Put (QTermination (GroupChatTermination (StopMessage (max_turns_message k) (name m)) None))]\<rparr>"
  using assms
  by (auto simp: apply_max_turns_def emit_defs split: option.splits if_splits)


lemma atc_frame:
  assumes "apply_termination_condition h d inc m = (r, m')"
  shows "message_thread m' = message_thread m" "active_speakers m' = active_speakers m"
    "name m' = name m" "max_turns m' = max_turns m"
    "participant_name_to_topic_type m' = participant_name_to_topic_type m"
    "output_topic_type m' = output_topic_type m" "group_topic_type m' = group_topic_type m"
    "emit_team_events m' = emit_team_events m" "sub m' = sub m"
    "filter is_Select (trace m') = filter is_Select (trace m)"
    "filter is_request (trace m') = filter is_request (trace m)"
    "(termination_condition m' = None) = (termination_condition m = None)"
  using assms
  by (auto simp: apply_termination_condition_def apply_max_turns_def emit_defs
      split: option.splits if_splits sum.splits prod.splits)

lemma atc_evaluate:
  assumes "apply_termination_condition h d inc m = (r, m')"
  shows "filter is_Evaluate (trace m') =
           filter is_Evaluate (trace m) @ (case termination_condition m of None \<Rightarrow> [] | Some tc \<Rightarrow> [Evaluate d])"
  using assms
  by (auto simp: apply_termination_condition_def apply_max_turns_def emit_defs
      split: option.splits if_splits sum.splits prod.splits)

lemma atc_True:
  assumes "apply_termination_condition h d inc m = (Inr True, m')"
  shows "\<exists>stop. output_message_queue m' =
            output_message_queue m @ [QTermination (GroupChatTermination stop None)]"
    and "current_turn m' = 0"
    and "termination_condition m \<noteq> None \<Longrightarrow>
           \<exists>t pre ev. termination_condition m' = Some (tc_reset h t)
             \<and> trace m' = pre @ [ResetCondition, Publish (output_topic_type m) (TerminationEvent ev),
                                  Put (QTermination ev)]"
  using assms
  by (auto simp: apply_termination_condition_def apply_max_turns_def emit_defs
      split: option.splits if_splits sum.splits prod.splits)

lemma atc_False:
  assumes "apply_termination_condition h d inc m = (Inr False, m')"
  shows "output_message_queue m' = output_message_queue m"
    and "current_turn m' = current_turn m + (if inc then 1 else 0)"
    and "\<And>k. max_turns m = Some k \<Longrightarrow> current_turn m' < k"
    and "count_list (trace m') ResetCondition = count_list (trace m) ResetCondition"
  using assms
  by (auto simp: apply_termination_condition_def apply_max_turns_def emit_defs
      split: option.splits if_splits sum.splits prod.splits)

lemma atc_Inl:
  assumes "apply_termination_condition h d inc m = (Inl e, m')"
  shows "output_message_queue m' = output_message_queue m"
    and "current_turn m' = current_turn m"
    and "count_list (trace m') ResetCondition = count_list (trace m) ResetCondition"
  using assms
  by (auto simp: apply_termination_condition_def apply_max_turns_def emit_defs
      split: option.splits if_splits sum.splits prod.splits)

lemma request_speakers_ok:
  "check_speakers (participant_name_to_topic_type m) names = None \<Longrightarrow>
   request_speakers names m =
     (None, m\<lparr>active_speakers := active_speakers m @ names,
              trace := trace m @ map (\<lambda>n. Publish (the (participant_name_to_topic_type m n))
                                          GroupChatRequestPublish) names\<rparr>)"
proof (induction names arbitrary: m)
  case Nil
  then show ?case by simp
next
  case (Cons n names)
  then show ?case
    by (auto simp: publish_message_def split: if_splits)
qed

lemma check_speakers_Some:
  "check_speakers d names = Some e \<Longrightarrow>
     \<exists>u. u \<in> set names \<and> d u = None \<and> e = speaker_not_found u"
  by (induction names) (auto split: if_splits)

lemma check_speakers_None: "check_speakers d names = None \<longleftrightarrow> (\<forall>u\<in>set names. d u \<noteq> None)"
  by (induction names) auto

lemma requests_no_reset [simp]:
  "count_list (map (\<lambda>n. Publish (f n) GroupChatRequestPublish) names) ResetCondition = 0"
  by (induction names) auto

lemma transition_frame:
  assumes "transition_to_next_speakers h m = (r, m')"
  shows "message_thread m' = message_thread m" "current_turn m' = current_turn m"
    "termination_condition m' = termination_condition m"
    "name m' = name m" "max_turns m' = max_turns m"
    "participant_name_to_topic_type m' = participant_name_to_topic_type m"
    "output_topic_type m' = output_topic_type m" "group_topic_type m' = group_topic_type m"
    "emit_team_events m' = emit_team_events m"
    "terminations (output_message_queue m') = terminations (output_message_queue m)"
    "filter is_Select (trace m') = filter is_Select (trace m) @ [Select (message_thread m)]"
    "filter is_Evaluate (trace m') = filter is_Evaluate (trace m)"
    "count_list (trace m') ResetCondition = count_list (trace m) ResetCondition"
  using assms
  by (auto simp: transition_to_next_speakers_def log_speaker_selection_def emit_defs
      request_speakers_ok o_def
      split: option.splits if_splits sum.splits prod.splits)

lemma transition_raises:
  assumes "transition_to_next_speakers h m = (Some e, m')"
  shows "output_message_queue m' = output_message_queue m"
    "active_speakers m' = active_speakers m"
    "trace m' = trace m @ [Select (message_thread m)]"
  using assms
  by (auto simp: transition_to_next_speakers_def log_speaker_selection_def emit_defs
      request_speakers_ok
      split: option.splits if_splits sum.splits prod.splits)

section \<open>What each handler changes\<close>

lemma except_Exception_frame [simp]:
  "max_turns (except_Exception e m) = max_turns m" "current_turn (except_Exception e m) = current_turn m"
  "message_thread (except_Exception e m) = message_thread m" "active_speakers (except_Exception e m) = active_speakers m"
  "termination_condition (except_Exception e m) = termination_condition m"
  "filter is_Select (trace (except_Exception e m)) = filter is_Select (trace m)"
  "filter is_Evaluate (trace (except_Exception e m)) = filter is_Evaluate (trace m)"
  "filter is_request (trace (except_Exception e m)) = filter is_request (trace m)"
  "count_list (trace (except_Exception e m)) ResetCondition = count_list (trace m) ResetCondition"
  "terminations (output_message_queue (except_Exception e m))
     = terminations (output_message_queue m) + (if is_Exception e then 1 else 0)"
  by (simp_all add: except_Exception_def emit_defs)

lemma response_round_open:
  assumes "response_name msg \<in> set (active_speakers m)"
    and "remove1 (response_name msg) (active_speakers m) \<noteq> []"
  shows "handle_agent_response h msg m =
           (None, m\<lparr>message_thread := message_thread m @ response_delta msg,
                    active_speakers := remove1 (response_name msg) (active_speakers m)\<rparr>)"
  using assms
  by (simp add: handle_agent_response_def handle_agent_response_try_def update_message_thread_def)

lemma response_round_complete:
  assumes "response_name msg \<in> set (active_speakers m)"
    and "remove1 (response_name msg) (active_speakers m) = []"
  shows "handle_agent_response_try h msg m =
           (case apply_termination_condition h (response_delta msg) True
                   (m\<lparr>message_thread := message_thread m @ response_delta msg, active_speakers := []\<rparr>) of
              (Inl e, m3) \<Rightarrow> (Some e, m3)
            | (Inr True, m3) \<Rightarrow> (None, m3)
            | (Inr False, m3) \<Rightarrow> transition_to_next_speakers h m3)"
  using assms
  by (simp add: handle_agent_response_try_def update_message_thread_def Let_def)

lemma try_raises:
  assumes "handle_agent_response_try h msg m = (Some e, m1)"
  shows "output_message_queue m1 = output_message_queue m"
    and "name m1 = name m"
    and "output_topic_type m1 = output_topic_type m"
    and "count_list (trace m1) ResetCondition = count_list (trace m) ResetCondition"
proof -
  let ?d = "response_delta msg"
  let ?m2 = "m\<lparr>message_thread := message_thread m @ ?d, active_speakers := []\<rparr>"
  have "output_message_queue m1 = output_message_queue m \<and> name m1 = name m
        \<and> output_topic_type m1 = output_topic_type m
        \<and> count_list (trace m1) ResetCondition = count_list (trace m) ResetCondition"
  proof (cases "response_name msg \<in> set (active_speakers m)")
    case False
    with assms show ?thesis
      by (auto simp: handle_agent_response_try_def update_message_thread_def Let_def)
  next
    case True
    show ?thesis
    proof (cases "remove1 (response_name msg) (active_speakers m) = []")
      case False
      with True assms show ?thesis
        by (auto simp: handle_agent_response_try_def update_message_thread_def Let_def)
    next
      case empty: True
      obtain r m3 where a: "apply_termination_condition h ?d True ?m2 = (r, m3)"
        by (cases "apply_termination_condition h ?d True ?m2")
      note fr = atc_frame [OF a]
      show ?thesis
      proof (cases r)
        case (Inl e')
        with a assms True empty have "m1 = m3"
          by (simp add: response_round_complete)
        with atc_Inl [OF a [unfolded Inl]] fr show ?thesis by simp
      next
        case (Inr b)
        show ?thesis
        proof (cases b)
          case True
          with a Inr assms \<open>response_name msg \<in> set (active_speakers m)\<close> empty show ?thesis
            by (simp add: response_round_complete)
        next
          case False
          with a Inr assms \<open>response_name msg \<in> set (active_speakers m)\<close> empty
          have t: "transition_to_next_speakers h m3 = (Some e, m1)"
            by (simp add: response_round_complete)
          from a Inr False have a': "apply_termination_condition h ?d True ?m2 = (Inr False, m3)"
            by simp
          from transition_raises [OF t] transition_frame [OF t] atc_False [OF a'] fr
          show ?thesis by simp
        qed
      qed
    qed
  qed
  then show "output_message_queue m1 = output_message_queue m" "name m1 = name m"
    "output_topic_type m1 = output_topic_type m"
    "count_list (trace m1) ResetCondition = count_list (trace m) ResetCondition"
    by simp_all
qed

lemma response_raises:
  assumes "handle_agent_response h msg m = (Some e, m')" and "is_Exception e"
  shows "output_message_queue m' = output_message_queue m
           @ [QTermination (GroupChatTermination
                (StopMessage ''An error occurred in the group chat.'' (name m)) (Some (from_exception e)))]"
    and "count_list (trace m') ResetCondition = count_list (trace m) ResetCondition"
proof -
  obtain r m1 where t: "handle_agent_response_try h msg m = (r, m1)"
    by (cases "handle_agent_response_try h msg m")
  with assms have r: "r = Some e" and m': "m' = signal_termination_with_error (from_exception e) m1"
    by (auto simp: handle_agent_response_def except_Exception_def split: option.splits if_splits)
  from try_raises [OF t [unfolded r]] m'
  show "output_message_queue m' = output_message_queue m
           @ [QTermination (GroupChatTermination
                (StopMessage ''An error occurred in the group chat.'' (name m)) (Some (from_exception e)))]"
    and "count_list (trace m') ResetCondition = count_list (trace m) ResetCondition"
    by (simp_all add: emit_defs)
qed


lemma put_all_eq:
  "put_all msgs m = m\<lparr>output_message_queue := output_message_queue m @ map QMessage msgs,
                        trace := trace m @ map (\<lambda>x. Put (QMessage x)) msgs\<rparr>"
  by (induction msgs arbitrary: m) (simp_all add: put_def)

lemma messages_no_termination [simp]: "terminations (map QMessage msgs) = 0"
  by (induction msgs) simp_all

lemma puts_filtered [simp]:
  "filter is_Select (map (\<lambda>x. Put (QMessage x)) msgs) = []"
  "filter is_Evaluate (map (\<lambda>x. Put (QMessage x)) msgs) = []"
  "filter is_request (map (\<lambda>x. Put (QMessage x)) msgs) = []"
  "count_list (map (\<lambda>x. Put (QMessage x)) msgs) ResetCondition = 0"
  by (induction msgs) simp_all

lemma relay_frame:
  "message_thread (relay_start_messages msgs ot m) = message_thread m @ msgs"
  "output_message_queue (relay_start_messages msgs ot m)
     = output_message_queue m @ (if ot then map QMessage msgs else [])"
  "current_turn (relay_start_messages msgs ot m) = current_turn m"
  "active_speakers (relay_start_messages msgs ot m) = active_speakers m"
  "termination_condition (relay_start_messages msgs ot m) = termination_condition m"
  "max_turns (relay_start_messages msgs ot m) = max_turns m"
  "name (relay_start_messages msgs ot m) = name m"
  "output_topic_type (relay_start_messages msgs ot m) = output_topic_type m"
  "sub (relay_start_messages msgs ot m) = sub m"
  "filter is_Select (trace (relay_start_messages msgs ot m)) = filter is_Select (trace m)"
  "filter is_Evaluate (trace (relay_start_messages msgs ot m)) = filter is_Evaluate (trace m)"
  "filter is_request (trace (relay_start_messages msgs ot m)) = filter is_request (trace m)"
  "count_list (trace (relay_start_messages msgs ot m)) ResetCondition = count_list (trace m) ResetCondition"
  by (simp_all add: relay_start_messages_def put_all_eq publish_message_def update_message_thread_def
      Let_def)

lemma start_validated:
  assumes "\<not> already_terminated h m"
    and "validate_group_state h (sub m) (messages msg) = (None, s1)"
  shows "handle_start h msg m =
           (case messages msg of
              None \<Rightarrow> transition_to_next_speakers h (m\<lparr>sub := s1, trace := trace m @ [Validate None]\<rparr>)
            | Some msgs \<Rightarrow>
                (case apply_termination_condition h msgs False
                        (relay_start_messages msgs (output_task_messages msg)
                           (m\<lparr>sub := s1, trace := trace m @ [Validate (Some msgs)]\<rparr>)) of
                   (Inl e, m6) \<Rightarrow> (Some e, m6)
                 | (Inr True, m6) \<Rightarrow> (None, m6)
                 | (Inr False, m6) \<Rightarrow> transition_to_next_speakers h m6))"
  using assms
  by (simp add: handle_start_def Let_def split: option.splits)

lemma start_summary:
  assumes "handle_start h msg m = (r, m')"
  shows "max_turns m' = max_turns m"
    and "current_turn m' = current_turn m \<or> current_turn m' = 0"
    and "terminations (output_message_queue m') \<le> terminations (output_message_queue m) + 1"
    and "r \<noteq> None \<Longrightarrow> terminations (output_message_queue m') = terminations (output_message_queue m)"
    and "r \<noteq> None \<Longrightarrow> active_speakers m' = active_speakers m"
    and "r \<noteq> None \<Longrightarrow> filter is_request (trace m') = filter is_request (trace m)"
    and "r \<noteq> None \<Longrightarrow> count_list (trace m') ResetCondition = count_list (trace m) ResetCondition"
proof -
  have "max_turns m' = max_turns m
      \<and> (current_turn m' = current_turn m \<or> current_turn m' = 0)
      \<and> terminations (output_message_queue m') \<le> terminations (output_message_queue m) + 1
      \<and> (r \<noteq> None \<longrightarrow> terminations (output_message_queue m') = terminations (output_message_queue m)
            \<and> active_speakers m' = active_speakers m
            \<and> filter is_request (trace m') = filter is_request (trace m)
            \<and> count_list (trace m') ResetCondition = count_list (trace m) ResetCondition)"
  proof (cases "already_terminated h m")
    case True
    with assms show ?thesis by (auto simp: handle_start_def emit_defs)
  next
    case nt: False
    obtain v s1 where v: "validate_group_state h (sub m) (messages msg) = (v, s1)"
      by (cases "validate_group_state h (sub m) (messages msg)")
    show ?thesis
    proof (cases v)
      case (Some e)
      with v nt assms show ?thesis by (auto simp: handle_start_def)
    next
      case None
      note sv = start_validated [OF nt v [unfolded None]]
      show ?thesis
      proof (cases "messages msg")
        case nomsg: None
        with sv assms
        have t: "transition_to_next_speakers h (m\<lparr>sub := s1, trace := trace m @ [Validate None]\<rparr>) = (r, m')"
          by simp
        from transition_frame [OF t] have base: "max_turns m' = max_turns m"
          "current_turn m' = current_turn m"
          "terminations (output_message_queue m') = terminations (output_message_queue m)"
          by simp_all
        have "r \<noteq> None \<longrightarrow> active_speakers m' = active_speakers m
            \<and> filter is_request (trace m') = filter is_request (trace m)"
          using transition_raises [of h _ _ m'] t by auto
        with base transition_frame(13) [OF t] show ?thesis by simp
      next
        case (Some msgs)
        let ?m5 = "relay_start_messages msgs (output_task_messages msg)
                     (m\<lparr>sub := s1, trace := trace m @ [Validate (Some msgs)]\<rparr>)"
        obtain a m6 where a: "apply_termination_condition h msgs False ?m5 = (a, m6)"
          by (cases "apply_termination_condition h msgs False ?m5")
        note fr = atc_frame [OF a]
        show ?thesis
        proof (cases a)
          case (Inl e)
          with a sv Some assms have "r = Some e" "m' = m6" by simp_all
          with atc_Inl [OF a [unfolded Inl]] fr show ?thesis by (simp add: relay_frame)
        next
          case (Inr b)
          show ?thesis
          proof (cases b)
            case True
            with a Inr sv Some assms have "r = None" "m' = m6" by simp_all
            moreover from a Inr True
            have a': "apply_termination_condition h msgs False ?m5 = (Inr True, m6)" by simp
            ultimately show ?thesis using atc_True(1,2) [OF a'] fr
              by (auto simp: relay_frame)
          next
            case False
            with a Inr sv Some assms have t: "transition_to_next_speakers h m6 = (r, m')" by simp
            from a Inr False have a': "apply_termination_condition h msgs False ?m5 = (Inr False, m6)"
              by simp
            have "r \<noteq> None \<longrightarrow> active_speakers m' = active_speakers m6
                \<and> filter is_request (trace m') = filter is_request (trace m6)
                \<and> output_message_queue m' = output_message_queue m6"
              using transition_raises [of h _ _ m'] t by auto
            with transition_frame [OF t] atc_False [OF a'] fr show ?thesis
              by (simp add: relay_frame)
          qed
        qed
      qed
    qed
  qed
  then show "max_turns m' = max_turns m"
    and "current_turn m' = current_turn m \<or> current_turn m' = 0"
    and "terminations (output_message_queue m') \<le> terminations (output_message_queue m) + 1"
    and "r \<noteq> None \<Longrightarrow> terminations (output_message_queue m') = terminations (output_message_queue m)"
    and "r \<noteq> None \<Longrightarrow> active_speakers m' = active_speakers m"
    and "r \<noteq> None \<Longrightarrow> filter is_request (trace m') = filter is_request (trace m)"
    and "r \<noteq> None \<Longrightarrow> count_list (trace m') ResetCondition = count_list (trace m) ResetCondition"
    by simp_all
qed


lemma response_summary:
  assumes "handle_agent_response h msg m = (r, m')"
  shows "max_turns m' = max_turns m"
    and "terminations (output_message_queue m') \<le> terminations (output_message_queue m) + 1"
    and "current_turn m' = current_turn m \<or> current_turn m' = 0
         \<or> (response_name msg \<in> set (active_speakers m)
             \<and> remove1 (response_name msg) (active_speakers m) = []
             \<and> current_turn m' = current_turn m + 1
             \<and> (\<forall>k. max_turns m = Some k \<longrightarrow> current_turn m' < k))"
    and "message_thread m' = message_thread m @ response_delta msg"
proof -
  let ?d = "response_delta msg"
  let ?m2 = "m\<lparr>message_thread := message_thread m @ ?d, active_speakers := []\<rparr>"
  have "max_turns m' = max_turns m
      \<and> terminations (output_message_queue m') \<le> terminations (output_message_queue m) + 1
      \<and> (current_turn m' = current_turn m \<or> current_turn m' = 0
         \<or> (response_name msg \<in> set (active_speakers m)
             \<and> remove1 (response_name msg) (active_speakers m) = []
             \<and> current_turn m' = current_turn m + 1
             \<and> (\<forall>k. max_turns m = Some k \<longrightarrow> current_turn m' < k)))
      \<and> message_thread m' = message_thread m @ ?d"
  proof (cases "response_name msg \<in> set (active_speakers m)")
    case False
    with assms show ?thesis
      by (auto simp: handle_agent_response_def handle_agent_response_try_def update_message_thread_def Let_def)
  next
    case active: True
    show ?thesis
    proof (cases "remove1 (response_name msg) (active_speakers m) = []")
      case False
      with active assms show ?thesis by (auto simp: response_round_open)
    next
      case empty: True
      note rc = response_round_complete [OF active empty, of h]
      obtain a m3 where a: "apply_termination_condition h ?d True ?m2 = (a, m3)"
        by (cases "apply_termination_condition h ?d True ?m2")
      note fr = atc_frame [OF a]
      show ?thesis
      proof (cases a)
        case (Inl e)
        with a rc assms have "m' = except_Exception e m3" by (simp add: handle_agent_response_def)
        with atc_Inl [OF a [unfolded Inl]] fr show ?thesis by simp
      next
        case (Inr b)
        show ?thesis
        proof (cases b)
          case True
          with a Inr rc assms have "m' = m3" by (simp add: handle_agent_response_def)
          moreover from a Inr True
          have a': "apply_termination_condition h ?d True ?m2 = (Inr True, m3)" by simp
          ultimately show ?thesis using atc_True(1,2) [OF a'] fr by auto
        next
          case False
          with a Inr have a': "apply_termination_condition h ?d True ?m2 = (Inr False, m3)" by simp
          obtain rt m4 where t: "transition_to_next_speakers h m3 = (rt, m4)"
            by (cases "transition_to_next_speakers h m3")
          with a' rc assms have "m' = (case rt of None \<Rightarrow> m4 | Some e \<Rightarrow> except_Exception e m4)"
            by (auto simp: handle_agent_response_def split: option.splits)
          moreover have "rt \<noteq> None \<longrightarrow> output_message_queue m4 = output_message_queue m3"
            using transition_raises [of h m3 _ m4] t by auto
          ultimately show ?thesis
            using transition_frame [OF t] atc_False [OF a'] fr active empty
            by (auto split: option.splits)
        qed
      qed
    qed
  qed
  then show "max_turns m' = max_turns m"
    and "terminations (output_message_queue m') \<le> terminations (output_message_queue m) + 1"
    and "current_turn m' = current_turn m \<or> current_turn m' = 0
         \<or> (response_name msg \<in> set (active_speakers m)
             \<and> remove1 (response_name msg) (active_speakers m) = []
             \<and> current_turn m' = current_turn m + 1
             \<and> (\<forall>k. max_turns m = Some k \<longrightarrow> current_turn m' < k))"
    and "message_thread m' = message_thread m @ response_delta msg"
    by simp_all
qed

lemma response_at_limit:
  assumes "handle_agent_response h msg m = (None, m')"
    and "response_name msg \<in> set (active_speakers m)"
    and "remove1 (response_name msg) (active_speakers m) = []"
    and "max_turns m = Some k" and "k \<le> current_turn m + 1"
  shows "\<exists>stop. output_message_queue m' =
            output_message_queue m @ [QTermination (GroupChatTermination stop None)]"
    and "current_turn m' = 0"
proof -
  let ?d = "response_delta msg"
  let ?m2 = "m\<lparr>message_thread := message_thread m @ ?d, active_speakers := []\<rparr>"
  note rc = response_round_complete [OF assms(2,3), of h]
  obtain a m3 where a: "apply_termination_condition h ?d True ?m2 = (a, m3)"
    by (cases "apply_termination_condition h ?d True ?m2")
  have "a = Inr True \<and> m' = m3"
  proof (cases a)
    case (Inl e)
    with a rc assms(1) show ?thesis by (simp add: handle_agent_response_def)
  next
    case (Inr b)
    show ?thesis
    proof (cases b)
      case True
      with a Inr rc assms(1) show ?thesis by (simp add: handle_agent_response_def)
    next
      case False
      with a Inr have a': "apply_termination_condition h ?d True ?m2 = (Inr False, m3)" by simp
      from atc_False(2,3) [OF a'] assms(4,5) have False by fastforce
      then show ?thesis ..
    qed
  qed
  with a have a': "apply_termination_condition h ?d True ?m2 = (Inr True, m')" by simp
  from atc_True(1,2) [OF a']
  show "\<exists>stop. output_message_queue m' =
            output_message_queue m @ [QTermination (GroupChatTermination stop None)]"
    and "current_turn m' = 0"
    by simp_all
qed


section \<open>A response from a participant that is not an active speaker\<close>

lemma xy_not_active: "response_name (GroupChatTeamResponse [TextMessage ''late'' ''Y''] ''Y'')
    \<notin> set (active_speakers ((xy_manager None None (Single ''X''))\<lparr>active_speakers := [''X'']\<rparr>))"
  by (simp add: xy_manager_def)

text \<open>
  C10. A response whose name is not among the active speakers makes
  \<^verbatim>\<open>list.remove\<close> raise \<^verbatim>\<open>ValueError\<close>. The handler turns the error into
  exactly one termination event with the error in the output queue and raises it again.
  The delta of the response is appended to the message thread before the error, and
  stays there.
\<close>

theorem unsolicited_response:
  assumes "response_name msg \<notin> set (active_speakers m)"
  shows "handle_agent_response h msg m =
           (Some (ValueError ''list.remove(x): x not in list''),
            m\<lparr>message_thread := message_thread m @ response_delta msg,
              output_message_queue := output_message_queue m
                 @ [QTermination (GroupChatTermination
                      (StopMessage ''An error occurred in the group chat.'' (name m))
                      (Some (from_exception (ValueError ''list.remove(x): x not in list''))))],
              trace := trace m
                 @ [Publish (output_topic_type m) (TerminationEvent (GroupChatTermination
                      (StopMessage ''An error occurred in the group chat.'' (name m))
                      (Some (from_exception (ValueError ''list.remove(x): x not in list''))))),
                    Put (QTermination (GroupChatTermination
                      (StopMessage ''An error occurred in the group chat.'' (name m))
                      (Some (from_exception (ValueError ''list.remove(x): x not in list'')))))]\<rparr>)"
  using assms
  by (simp add: handle_agent_response_def handle_agent_response_try_def update_message_thread_def
      except_Exception_def emit_defs)


theorem unsolicited_response_witness:
  "response_name (GroupChatTeamResponse [TextMessage ''late'' ''Y''] ''Y'')
      \<notin> set (active_speakers ((xy_manager None None (Single ''X''))\<lparr>active_speakers := [''X'']\<rparr>))
   \<and> fst (handle_agent_response fixed_hooks (GroupChatTeamResponse [TextMessage ''late'' ''Y''] ''Y'')
        ((xy_manager None None (Single ''X''))\<lparr>active_speakers := [''X'']\<rparr>))
      = Some (ValueError ''list.remove(x): x not in list'')
   \<and> message_thread (snd (handle_agent_response fixed_hooks (GroupChatTeamResponse [TextMessage ''late'' ''Y''] ''Y'')
        ((xy_manager None None (Single ''X''))\<lparr>active_speakers := [''X'']\<rparr>)))
      = [TextMessage ''late'' ''Y'']
   \<and> output_message_queue (snd (handle_agent_response fixed_hooks (GroupChatTeamResponse [TextMessage ''late'' ''Y''] ''Y'')
        ((xy_manager None None (Single ''X''))\<lparr>active_speakers := [''X'']\<rparr>)))
      = [QTermination (GroupChatTermination (StopMessage ''An error occurred in the group chat.'' ''manager'')
           (Some (SerializableException (ValueError ''list.remove(x): x not in list''))))]"
  using unsolicited_response [OF xy_not_active, of fixed_hooks] xy_not_active
  by (simp add: xy_manager_def from_exception_def)


section \<open>Evaluating the handlers on the participants X and Y\<close>

lemmas xy_defs = xy_manager_def fixed_hooks_def rejecting_hooks_def task_start_def done_start_def
  empty_start_def x_reply_def y_reply_def done_call_def

lemmas run_defs = handle_start_def handle_agent_response_def handle_agent_response_try_def
  except_Exception_def already_terminated_def relay_start_messages_def update_message_thread_def
  apply_termination_condition_def apply_max_turns_def transition_to_next_speakers_def
  log_speaker_selection_def speaker_not_found_def max_turns_message_def str_int_def
  handle_group_chat_error_def handle_group_chat_message_def from_exception_def


lemma xy_manager_fields [simp]:
  "name (xy_manager tc mt sel) = ''manager''"
  "group_topic_type (xy_manager tc mt sel) = ''group''"
  "output_topic_type (xy_manager tc mt sel) = ''output''"
  "message_thread (xy_manager tc mt sel) = []"
  "output_message_queue (xy_manager tc mt sel) = []"
  "termination_condition (xy_manager tc mt sel) = tc"
  "max_turns (xy_manager tc mt sel) = mt"
  "current_turn (xy_manager tc mt sel) = 0"
  "emit_team_events (xy_manager tc mt sel) = False"
  "active_speakers (xy_manager tc mt sel) = []"
  "sub (xy_manager tc mt sel) = sel"
  "trace (xy_manager tc mt sel) = []"
  "participant_name_to_topic_type (xy_manager tc mt sel) = [''X'' \<mapsto> ''tx'', ''Y'' \<mapsto> ''ty'']"
  by (simp_all add: xy_manager_def)

lemma start_rejected:
  "handle_start rejecting_hooks task_start (xy_manager None (Some 1) (Single ''X''))
    = (Some (ValueError ''invalid group state''),
       (xy_manager None (Some 1) (Single ''X''))\<lparr>trace := [Validate (Some [TextMessage ''task'' ''user''])]\<rparr>)"
  by (simp add: xy_defs run_defs)

lemma done_stops:
  "apply_termination_condition fixed_hooks [TextMessage ''DONE'' ''user''] False
      (xy_manager (Some False) None (Single ''X''))
    = (Inr True, (xy_manager (Some False) None (Single ''X''))
        \<lparr>output_message_queue := [QTermination (GroupChatTermination
            (StopMessage ''Text DONE mentioned'' ''TextMentionTermination'') None)],
         trace := [Evaluate [TextMessage ''DONE'' ''user''], ResetCondition,
                   Publish ''output'' (TerminationEvent (GroupChatTermination
                     (StopMessage ''Text DONE mentioned'' ''TextMentionTermination'') None)),
                   Put (QTermination (GroupChatTermination
                     (StopMessage ''Text DONE mentioned'' ''TextMentionTermination'') None))]\<rparr>)"
  by (simp add: xy_defs run_defs emit_defs)

section \<open>Termination events on the terminal paths\<close>

lemma handle_count:
  assumes "handle h x m = (r, m')"
  shows "terminations (output_message_queue m') \<le> terminations (output_message_queue m) + 1"
proof (cases x)
  case (InStart message)
  with assms start_summary(3) [of h message m r m'] show ?thesis by simp
next
  case (InResponse message)
  with assms response_summary(2) [of h message m r m'] show ?thesis by simp
qed (use assms in \<open>auto simp: handle_group_chat_message_def handle_group_chat_error_def
      handle_reset_def handle_pause_def handle_resume_def emit_defs\<close>)

text \<open>
  C1 (as amended). A stop by the termination condition or by the maximum number of
  turns puts exactly one termination event in the output queue; an exception that
  \<^verbatim>\<open>handle_agent_response\<close> catches (an unknown speaker, an exception of the
  selector or of the termination condition, a response from a participant that is not
  active) puts exactly one termination event with the error there before it is raised
  again; an error message of a participant puts exactly one there. An exception raised
  while a start message is handled (by the validator, the termination condition or the
  selector, an unknown speaker included) is raised to the caller of the start with no
  termination event in the queue. No handler puts two termination events in the queue.
\<close>

theorem one_termination_event_per_path:
  "(apply_termination_condition h delta inc m = (Inr True, ma) \<longrightarrow>
      (\<exists>stop. output_message_queue ma =
         output_message_queue m @ [QTermination (GroupChatTermination stop None)]))
   \<and> (handle_agent_response h msg m = (Some e, mb) \<and> is_Exception e \<longrightarrow>
        output_message_queue mb = output_message_queue m
          @ [QTermination (GroupChatTermination
               (StopMessage ''An error occurred in the group chat.'' (name m)) (Some (from_exception e)))])
   \<and> handle_group_chat_error err m =
        (None, m\<lparr>output_message_queue := output_message_queue m
                    @ [QTermination (GroupChatTermination
                         (StopMessage ''An error occurred in the group chat.'' (name m)) (Some err))],
                 trace := trace m
                    @ [Publish (output_topic_type m) (TerminationEvent (GroupChatTermination
                         (StopMessage ''An error occurred in the group chat.'' (name m)) (Some err))),
                       Put (QTermination (GroupChatTermination
                         (StopMessage ''An error occurred in the group chat.'' (name m)) (Some err)))]\<rparr>)
   \<and> (handle_start h start m = (Some ea, mc) \<longrightarrow>
        terminations (output_message_queue mc) = terminations (output_message_queue m))
   \<and> (handle h x m = (r, md) \<longrightarrow>
        terminations (output_message_queue md) \<le> terminations (output_message_queue m) + 1)"
proof (intro conjI impI)
  assume "apply_termination_condition h delta inc m = (Inr True, ma)"
  then show "\<exists>stop. output_message_queue ma =
         output_message_queue m @ [QTermination (GroupChatTermination stop None)]"
    by (rule atc_True(1))
next
  assume "handle_agent_response h msg m = (Some e, mb) \<and> is_Exception e"
  then show "output_message_queue mb = output_message_queue m
          @ [QTermination (GroupChatTermination
               (StopMessage ''An error occurred in the group chat.'' (name m)) (Some (from_exception e)))]"
    using response_raises(1) by blast
next
  assume "handle_start h start m = (Some ea, mc)"
  then show "terminations (output_message_queue mc) = terminations (output_message_queue m)"
    using start_summary(4) by blast
next
  assume "handle h x m = (r, md)"
  then show "terminations (output_message_queue md) \<le> terminations (output_message_queue m) + 1"
    by (rule handle_count)
qed (simp add: handle_group_chat_error_def emit_defs)

theorem start_validator_error_counterexample:
  "fst (handle_start rejecting_hooks task_start (xy_manager None (Some 1) (Single ''X'')))
     = Some (ValueError ''invalid group state'')
   \<and> output_message_queue
       (snd (handle_start rejecting_hooks task_start (xy_manager None (Some 1) (Single ''X'')))) = []
   \<and> terminations (output_message_queue
       (snd (handle_start rejecting_hooks task_start (xy_manager None (Some 1) (Single ''X''))))) = 0"
  by (simp add: start_rejected)

lemma late_reply:
  "\<exists>mb. handle_agent_response fixed_hooks y_reply (xy_manager (Some False) None (Single ''X''))
     = (Some (ValueError ''list.remove(x): x not in list''), mb)"
  by (simp add: xy_defs run_defs emit_defs)

theorem one_termination_event_per_path_witness:
  "(\<exists>ma. apply_termination_condition fixed_hooks [TextMessage ''DONE'' ''user''] False
            (xy_manager (Some False) None (Single ''X'')) = (Inr True, ma)
       \<and> (\<exists>stop. output_message_queue ma = [QTermination (GroupChatTermination stop None)]))
   \<and> (\<exists>mb. handle_agent_response fixed_hooks y_reply (xy_manager (Some False) None (Single ''X''))
            = (Some (ValueError ''list.remove(x): x not in list''), mb)
       \<and> is_Exception (ValueError ''list.remove(x): x not in list'')
       \<and> output_message_queue mb =
            [QTermination (GroupChatTermination (StopMessage ''An error occurred in the group chat.'' ''manager'')
               (Some (from_exception (ValueError ''list.remove(x): x not in list''))))]
       \<and> handle fixed_hooks (InResponse y_reply) (xy_manager (Some False) None (Single ''X''))
            = (Some (ValueError ''list.remove(x): x not in list''), mb)
       \<and> terminations (output_message_queue mb) \<le> 1)
   \<and> (\<exists>mc. handle_start rejecting_hooks task_start (xy_manager None (Some 1) (Single ''X''))
            = (Some (ValueError ''invalid group state''), mc)
       \<and> terminations (output_message_queue mc) = 0)"
proof -
  let ?m = "xy_manager (Some False) None (Single ''X'')"
  let ?e = "ValueError ''list.remove(x): x not in list''"
  obtain ma where a: "apply_termination_condition fixed_hooks [TextMessage ''DONE'' ''user''] False ?m
      = (Inr True, ma)"
    by (simp add: done_stops)
  obtain mb where b: "handle_agent_response fixed_hooks y_reply ?m = (Some ?e, mb)"
    using late_reply by blast
  then have b': "handle fixed_hooks (InResponse y_reply) ?m = (Some ?e, mb)" by simp
  obtain mc where c: "handle_start rejecting_hooks task_start (xy_manager None (Some 1) (Single ''X''))
      = (Some (ValueError ''invalid group state''), mc)"
    by (simp add: start_rejected)
  from a b b' one_termination_event_per_path
      [where h = fixed_hooks and delta = "[TextMessage ''DONE'' ''user'']" and inc = False
        and m = ?m and ma = ma and msg = y_reply and e = ?e and mb = mb
        and x = "InResponse y_reply" and r = "Some ?e" and md = mb]
  have "(\<exists>stop. output_message_queue ma = [QTermination (GroupChatTermination stop None)])
      \<and> output_message_queue mb =
            [QTermination (GroupChatTermination (StopMessage ''An error occurred in the group chat.'' ''manager'')
               (Some (from_exception ?e)))]
      \<and> terminations (output_message_queue mb) \<le> 1"
    by simp
  moreover from c one_termination_event_per_path
      [where h = rejecting_hooks and m = "xy_manager None (Some 1) (Single ''X'')"
        and start = task_start and ea = "ValueError ''invalid group state''" and mc = mc]
  have "terminations (output_message_queue mc) = 0" by simp
  ultimately show ?thesis using a b b' c by simp
qed




section \<open>A selected speaker that is not a participant\<close>

lemma unknown_speaker_raises:
  assumes "select_speaker h (sub m) (message_thread m) = (Inr sel, s')"
    and "u \<in> set (selected_names sel)" and "participant_name_to_topic_type m u = None"
  shows "\<exists>v. v \<in> set (selected_names sel) \<and> participant_name_to_topic_type m v = None
           \<and> transition_to_next_speakers h m =
               (Some (speaker_not_found v), m\<lparr>sub := s', trace := trace m @ [Select (message_thread m)]\<rparr>)"
proof -
  from assms(2,3) have "check_speakers (participant_name_to_topic_type m) (selected_names sel) \<noteq> None"
    by (auto simp: check_speakers_None)
  then obtain e where "check_speakers (participant_name_to_topic_type m) (selected_names sel) = Some e"
    by blast
  with check_speakers_Some [OF this] assms(1) show ?thesis
    by (auto simp: transition_to_next_speakers_def)
qed

text \<open>
  C3 (as amended). When the speaker selector returns a name that is not in the
  participant registry, the speaker transition raises "Speaker ... not found in
  participant names." for such a name, having done nothing but call the selector: no
  request to respond is published and no name is added to the active speakers. Reached
  from the completion of a round in \<^verbatim>\<open>handle_agent_response\<close>, the error is put in
  the output queue as exactly one termination event with the error and raised again.
  Reached from \<^verbatim>\<open>handle_start\<close>, the error is raised to the caller of the start and
  no termination event is put in the queue.
\<close>

theorem unknown_speaker:
  "(select_speaker h (sub m) (message_thread m) = (Inr sel, s')
      \<and> u \<in> set (selected_names sel) \<and> participant_name_to_topic_type m u = None \<longrightarrow>
      (\<exists>v. v \<in> set (selected_names sel) \<and> participant_name_to_topic_type m v = None
         \<and> transition_to_next_speakers h m =
             (Some (speaker_not_found v), m\<lparr>sub := s', trace := trace m @ [Select (message_thread m)]\<rparr>)))
   \<and> (response_name msg \<in> set (active_speakers m)
      \<and> remove1 (response_name msg) (active_speakers m) = []
      \<and> apply_termination_condition h (response_delta msg) True
           (m\<lparr>message_thread := message_thread m @ response_delta msg, active_speakers := []\<rparr>)
          = (Inr False, mt)
      \<and> select_speaker h (sub mt) (message_thread mt) = (Inr sel, s')
      \<and> u \<in> set (selected_names sel) \<and> participant_name_to_topic_type mt u = None \<longrightarrow>
      (\<exists>v. v \<in> set (selected_names sel) \<and> participant_name_to_topic_type m v = None
         \<and> fst (handle_agent_response h msg m) = Some (speaker_not_found v)
         \<and> output_message_queue (snd (handle_agent_response h msg m)) = output_message_queue m
             @ [QTermination (GroupChatTermination
                  (StopMessage ''An error occurred in the group chat.'' (name m))
                  (Some (from_exception (speaker_not_found v))))]
         \<and> active_speakers (snd (handle_agent_response h msg m)) = []
         \<and> filter is_request (trace (snd (handle_agent_response h msg m))) = filter is_request (trace m)))
   \<and> (\<not> already_terminated h m
      \<and> validate_group_state h (sub m) (messages start) = (None, sv)
      \<and> (case messages start of
            None \<Rightarrow> mt = m\<lparr>sub := sv, trace := trace m @ [Validate None]\<rparr>
          | Some msgs \<Rightarrow>
              apply_termination_condition h msgs False
                (relay_start_messages msgs (output_task_messages start)
                   (m\<lparr>sub := sv, trace := trace m @ [Validate (Some msgs)]\<rparr>)) = (Inr False, mt))
      \<and> select_speaker h (sub mt) (message_thread mt) = (Inr sel, s')
      \<and> u \<in> set (selected_names sel) \<and> participant_name_to_topic_type mt u = None \<longrightarrow>
      (\<exists>v. v \<in> set (selected_names sel) \<and> participant_name_to_topic_type m v = None
         \<and> fst (handle_start h start m) = Some (speaker_not_found v)
         \<and> terminations (output_message_queue (snd (handle_start h start m)))
             = terminations (output_message_queue m)
         \<and> active_speakers (snd (handle_start h start m)) = active_speakers m
         \<and> filter is_request (trace (snd (handle_start h start m))) = filter is_request (trace m)))"
proof (intro conjI impI)
  assume "select_speaker h (sub m) (message_thread m) = (Inr sel, s')
      \<and> u \<in> set (selected_names sel) \<and> participant_name_to_topic_type m u = None"
  then show "\<exists>v. v \<in> set (selected_names sel) \<and> participant_name_to_topic_type m v = None
         \<and> transition_to_next_speakers h m =
             (Some (speaker_not_found v), m\<lparr>sub := s', trace := trace m @ [Select (message_thread m)]\<rparr>)"
    using unknown_speaker_raises [of h m sel s' u] by simp
next
  let ?d = "response_delta msg"
  let ?m2 = "m\<lparr>message_thread := message_thread m @ ?d, active_speakers := []\<rparr>"
  assume asm: "response_name msg \<in> set (active_speakers m)
      \<and> remove1 (response_name msg) (active_speakers m) = []
      \<and> apply_termination_condition h ?d True ?m2 = (Inr False, mt)
      \<and> select_speaker h (sub mt) (message_thread mt) = (Inr sel, s')
      \<and> u \<in> set (selected_names sel) \<and> participant_name_to_topic_type mt u = None"
  then have a: "apply_termination_condition h ?d True ?m2 = (Inr False, mt)" by simp
  from asm have sel: "select_speaker h (sub mt) (message_thread mt) = (Inr sel, s')"
    and u: "u \<in> set (selected_names sel)" "participant_name_to_topic_type mt u = None"
    by simp_all
  from unknown_speaker_raises [OF sel u]
  obtain v where v: "v \<in> set (selected_names sel)" "participant_name_to_topic_type mt v = None"
    and t: "transition_to_next_speakers h mt =
             (Some (speaker_not_found v), mt\<lparr>sub := s', trace := trace mt @ [Select (message_thread mt)]\<rparr>)"
    by (elim exE conjE)
  from asm have act: "response_name msg \<in> set (active_speakers m)"
    and emp: "remove1 (response_name msg) (active_speakers m) = []" by simp_all
  have har: "handle_agent_response h msg m =
      (Some (speaker_not_found v),
       except_Exception (speaker_not_found v)
         (mt\<lparr>sub := s', trace := trace mt @ [Select (message_thread mt)]\<rparr>))"
    by (simp add: handle_agent_response_def response_round_complete [OF act emp] a t)
  have fr: "participant_name_to_topic_type mt = participant_name_to_topic_type m"
    "output_message_queue mt = output_message_queue m" "name mt = name m"
    "active_speakers mt = []" "filter is_request (trace mt) = filter is_request (trace m)"
    using atc_frame(2,3,5,11) [OF a] atc_False(1) [OF a] by simp_all
  have exc: "is_Exception (speaker_not_found v)" by (simp add: speaker_not_found_def)
  show "\<exists>v. v \<in> set (selected_names sel) \<and> participant_name_to_topic_type m v = None
         \<and> fst (handle_agent_response h msg m) = Some (speaker_not_found v)
         \<and> output_message_queue (snd (handle_agent_response h msg m)) = output_message_queue m
             @ [QTermination (GroupChatTermination
                  (StopMessage ''An error occurred in the group chat.'' (name m))
                  (Some (from_exception (speaker_not_found v))))]
         \<and> active_speakers (snd (handle_agent_response h msg m)) = []
         \<and> filter is_request (trace (snd (handle_agent_response h msg m))) = filter is_request (trace m)"
    using v fr exc by (intro exI [of _ v]) (simp add: har except_Exception_def emit_defs)
next
  assume asm: "\<not> already_terminated h m
      \<and> validate_group_state h (sub m) (messages start) = (None, sv)
      \<and> (case messages start of
            None \<Rightarrow> mt = m\<lparr>sub := sv, trace := trace m @ [Validate None]\<rparr>
          | Some msgs \<Rightarrow>
              apply_termination_condition h msgs False
                (relay_start_messages msgs (output_task_messages start)
                   (m\<lparr>sub := sv, trace := trace m @ [Validate (Some msgs)]\<rparr>)) = (Inr False, mt))
      \<and> select_speaker h (sub mt) (message_thread mt) = (Inr sel, s')
      \<and> u \<in> set (selected_names sel) \<and> participant_name_to_topic_type mt u = None"
  then have sel: "select_speaker h (sub mt) (message_thread mt) = (Inr sel, s')"
    and u: "u \<in> set (selected_names sel)" "participant_name_to_topic_type mt u = None"
    and nt: "\<not> already_terminated h m"
    and val: "validate_group_state h (sub m) (messages start) = (None, sv)"
    by simp_all
  from unknown_speaker_raises [OF sel u]
  obtain v where v: "v \<in> set (selected_names sel)" "participant_name_to_topic_type mt v = None"
    and t: "transition_to_next_speakers h mt =
             (Some (speaker_not_found v), mt\<lparr>sub := s', trace := trace mt @ [Select (message_thread mt)]\<rparr>)"
    by (elim exE conjE)
  note sv = start_validated [OF nt val]
  have hs: "handle_start h start m =
      (Some (speaker_not_found v), mt\<lparr>sub := s', trace := trace mt @ [Select (message_thread mt)]\<rparr>)"
  proof (cases "messages start")
    case None
    with asm sv t show ?thesis by simp
  next
    case (Some msgs)
    with asm sv t show ?thesis by simp
  qed
  have "participant_name_to_topic_type mt = participant_name_to_topic_type m"
  proof (cases "messages start")
    case None
    with asm show ?thesis by simp
  next
    case (Some msgs)
    with asm have "apply_termination_condition h msgs False
                (relay_start_messages msgs (output_task_messages start)
                   (m\<lparr>sub := sv, trace := trace m @ [Validate (Some msgs)]\<rparr>)) = (Inr False, mt)"
      by simp
    from atc_frame(5) [OF this] show ?thesis
      by (simp add: relay_start_messages_def publish_message_def update_message_thread_def
          put_all_eq Let_def)
  qed
  then have v': "participant_name_to_topic_type m v = None" using v by simp
  from start_summary(4,5,6) [OF hs]
  have "terminations (output_message_queue (snd (handle_start h start m)))
             = terminations (output_message_queue m)"
    "active_speakers (snd (handle_start h start m)) = active_speakers m"
    "filter is_request (trace (snd (handle_start h start m))) = filter is_request (trace m)"
    by (simp_all add: hs)
  with v(1) v'
  show "\<exists>v. v \<in> set (selected_names sel) \<and> participant_name_to_topic_type m v = None
         \<and> fst (handle_start h start m) = Some (speaker_not_found v)
         \<and> terminations (output_message_queue (snd (handle_start h start m)))
             = terminations (output_message_queue m)
         \<and> active_speakers (snd (handle_start h start m)) = active_speakers m
         \<and> filter is_request (trace (snd (handle_start h start m))) = filter is_request (trace m)"
    by (intro exI [of _ v]) (simp add: hs)
qed


lemma start_unknown_speaker:
  "handle_start fixed_hooks empty_start (xy_manager None None (Single ''Z''))
     = (Some (speaker_not_found ''Z''),
        (xy_manager None None (Single ''Z''))\<lparr>trace := [Validate None, Select []]\<rparr>)"
  by (simp add: xy_defs run_defs)

theorem start_unknown_speaker_counterexample:
  "fst (handle_start fixed_hooks empty_start (xy_manager None None (Single ''Z'')))
     = Some (RuntimeError ''Speaker Z not found in participant names.'')
   \<and> output_message_queue (snd (handle_start fixed_hooks empty_start (xy_manager None None (Single ''Z'')))) = []
   \<and> terminations (output_message_queue
         (snd (handle_start fixed_hooks empty_start (xy_manager None None (Single ''Z''))))) = 0"
  by (simp add: start_unknown_speaker speaker_not_found_def)

lemma x_round_continues:
  "apply_termination_condition fixed_hooks (response_delta x_reply) True
     ((xy_manager None None (Single ''Z''))
        \<lparr>message_thread := message_thread ((xy_manager None None (Single ''Z''))\<lparr>active_speakers := [''X'']\<rparr>)
                             @ response_delta x_reply,
         active_speakers := []\<rparr>)
    = (Inr False, (xy_manager None None (Single ''Z''))
         \<lparr>message_thread := [TextMessage ''thinking'' ''X'', TextMessage ''from X'' ''X''],
          current_turn := 1\<rparr>)"
  by (simp add: xy_defs run_defs)

theorem unknown_speaker_witness:
  "transition_to_next_speakers fixed_hooks (xy_manager None None (Single ''Z''))
      = (Some (speaker_not_found ''Z''), (xy_manager None None (Single ''Z''))\<lparr>trace := [Select []]\<rparr>)
   \<and> fst (handle_agent_response fixed_hooks x_reply
            ((xy_manager None None (Single ''Z''))\<lparr>active_speakers := [''X'']\<rparr>))
        = Some (speaker_not_found ''Z'')
   \<and> output_message_queue (snd (handle_agent_response fixed_hooks x_reply
            ((xy_manager None None (Single ''Z''))\<lparr>active_speakers := [''X'']\<rparr>)))
        = [QTermination (GroupChatTermination (StopMessage ''An error occurred in the group chat.'' ''manager'')
             (Some (from_exception (speaker_not_found ''Z''))))]
   \<and> active_speakers (snd (handle_agent_response fixed_hooks x_reply
            ((xy_manager None None (Single ''Z''))\<lparr>active_speakers := [''X'']\<rparr>))) = []
   \<and> fst (handle_start fixed_hooks empty_start (xy_manager None None (Single ''Z'')))
        = Some (speaker_not_found ''Z'')
   \<and> terminations (output_message_queue
         (snd (handle_start fixed_hooks empty_start (xy_manager None None (Single ''Z''))))) = 0"
proof -
  let ?m = "xy_manager None None (Single ''Z'')"
  let ?mx = "?m\<lparr>active_speakers := [''X'']\<rparr>"
  have sel: "\<And>s t. select_speaker fixed_hooks s t = (Inr s, s)"
    and val: "\<And>s t. validate_group_state fixed_hooks s t = (None, s)"
    by (simp_all add: fixed_hooks_def)
  have nt: "\<not> already_terminated fixed_hooks ?m" by (simp add: already_terminated_def)
  have x: "response_name x_reply = ''X''" by (simp add: x_reply_def)
  from unknown_speaker
      [where h = fixed_hooks and m = ?m and sel = "Single ''Z''" and s' = "Single ''Z''" and u = "''Z''"
        and start = empty_start and sv = "Single ''Z''" and mt = "?m\<lparr>trace := [Validate None]\<rparr>"]
    nt
  have "transition_to_next_speakers fixed_hooks ?m
          = (Some (speaker_not_found ''Z''), ?m\<lparr>trace := [Select []]\<rparr>)
      \<and> fst (handle_start fixed_hooks empty_start ?m) = Some (speaker_not_found ''Z'')
      \<and> terminations (output_message_queue (snd (handle_start fixed_hooks empty_start ?m))) = 0"
    by (simp add: sel val empty_start_def)
  moreover
  from unknown_speaker
      [where h = fixed_hooks and m = ?mx and msg = x_reply and sel = "Single ''Z''" and s' = "Single ''Z''"
        and u = "''Z''"
        and mt = "?m\<lparr>message_thread := [TextMessage ''thinking'' ''X'', TextMessage ''from X'' ''X''],
                        current_turn := 1\<rparr>"]
    x_round_continues
  have "fst (handle_agent_response fixed_hooks x_reply ?mx) = Some (speaker_not_found ''Z'')
      \<and> output_message_queue (snd (handle_agent_response fixed_hooks x_reply ?mx))
           = [QTermination (GroupChatTermination (StopMessage ''An error occurred in the group chat.'' ''manager'')
                (Some (from_exception (speaker_not_found ''Z''))))]
      \<and> active_speakers (snd (handle_agent_response fixed_hooks x_reply ?mx)) = []"
    by (simp add: sel x)
  ultimately show ?thesis by simp
qed

section \<open>The turn counter\<close>

lemma handle_turn:
  assumes "handle h x m = (r, m')"
  shows "max_turns m' = max_turns m"
    and "current_turn m' = current_turn m \<or> current_turn m' = 0
         \<or> (\<exists>msg. x = InResponse msg \<and> response_name msg \<in> set (active_speakers m)
               \<and> remove1 (response_name msg) (active_speakers m) = []
               \<and> current_turn m' = current_turn m + 1
               \<and> (\<forall>k. max_turns m = Some k \<longrightarrow> current_turn m' < k))"
proof -
  have "max_turns m' = max_turns m
      \<and> (current_turn m' = current_turn m \<or> current_turn m' = 0
         \<or> (\<exists>msg. x = InResponse msg \<and> response_name msg \<in> set (active_speakers m)
               \<and> remove1 (response_name msg) (active_speakers m) = []
               \<and> current_turn m' = current_turn m + 1
               \<and> (\<forall>k. max_turns m = Some k \<longrightarrow> current_turn m' < k)))"
  proof (cases x)
    case (InStart message)
    with assms start_summary(1,2) [of h message m r m'] show ?thesis by simp
  next
    case (InResponse message)
    with assms response_summary(1,3) [of h message m r m'] show ?thesis by simp
  qed (use assms in \<open>auto simp: handle_group_chat_message_def handle_group_chat_error_def
        handle_reset_def handle_pause_def handle_resume_def emit_defs\<close>)
  then show "max_turns m' = max_turns m"
    and "current_turn m' = current_turn m \<or> current_turn m' = 0
         \<or> (\<exists>msg. x = InResponse msg \<and> response_name msg \<in> set (active_speakers m)
               \<and> remove1 (response_name msg) (active_speakers m) = []
               \<and> current_turn m' = current_turn m + 1
               \<and> (\<forall>k. max_turns m = Some k \<longrightarrow> current_turn m' < k))"
    by simp_all
qed

lemma handle_keeps_turn_in_range:
  assumes "0 \<le> current_turn m" and "\<forall>k. max_turns m = Some k \<longrightarrow> current_turn m < k"
  shows "0 \<le> current_turn (snd (handle h x m))
       \<and> (\<forall>k. max_turns (snd (handle h x m)) = Some k \<longrightarrow> current_turn (snd (handle h x m)) < k)"
proof -
  obtain r m' where hm: "handle h x m = (r, m')" by (cases "handle h x m")
  from handle_turn [OF hm] assms show ?thesis unfolding hm by auto
qed

lemma run_keeps_turn_in_range:
  "0 \<le> current_turn m \<Longrightarrow> \<forall>k. max_turns m = Some k \<longrightarrow> current_turn m < k \<Longrightarrow>
   0 \<le> current_turn (run h xs m)
     \<and> (\<forall>k. max_turns (run h xs m) = Some k \<longrightarrow> current_turn (run h xs m) < k)"
proof (induction xs arbitrary: m)
  case Nil
  then show ?case by simp
next
  case (Cons x xs)
  from handle_keeps_turn_in_range [OF Cons.prems, of h x] show ?case
    by (simp add: Cons.IH)
qed

lemma init_turn_in_range:
  assumes "init c = Inr m"
  shows "current_turn m = 0" and "\<forall>k. max_turns m = Some k \<longrightarrow> 0 < k"
  using assms
  by (auto simp: init_def split: if_splits sum.splits option.splits)

lemma apply_max_turns_at_limit:
  assumes "max_turns m = Some k" and "k \<le> current_turn m + 1"
  shows "apply_max_turns h True m =
     (True, signal_termination (StopMessage (max_turns_message k) (name m))
        ((case termination_condition m of
            None \<Rightarrow> m\<lparr>current_turn := current_turn m + 1\<rparr>
          | Some tc \<Rightarrow> m\<lparr>current_turn := current_turn m + 1,
                          termination_condition := Some (tc_reset h tc),
                          trace := trace m @ [ResetCondition]\<rparr>)\<lparr>current_turn := 0\<rparr>))"
  using assms by (simp add: apply_max_turns_def Let_def split: option.splits)

text \<open>
  C5. Along every sequence of handled messages, starting from a constructed manager,
  the turn counter stays at least 0 and below the maximum number of turns. A step
  raises it by at most 1, and raises it only when the step handles a response that
  takes the last name out of the active speakers, never when it handles a start, a
  relayed message, an error, a reset, a pause or a resume. When the increment of the
  counter reaches the maximum number of turns, the termination event is put in the
  output queue in the same step and the counter is back at 0: a response that completes
  a round at the limit and returns has put exactly one termination event in the queue.
\<close>

theorem turn_counter_steps:
  assumes "init c = Inr m0"
  shows "0 \<le> current_turn (run h xs m0)
     \<and> (\<forall>k. max_turns (run h xs m0) = Some k \<longrightarrow> current_turn (run h xs m0) < k)
     \<and> current_turn (snd (handle h x (run h xs m0))) \<le> current_turn (run h xs m0) + 1
     \<and> (current_turn (run h xs m0) < current_turn (snd (handle h x (run h xs m0))) \<longrightarrow>
          current_turn (snd (handle h x (run h xs m0))) = current_turn (run h xs m0) + 1
          \<and> (\<exists>msg. x = InResponse msg
                \<and> response_name msg \<in> set (active_speakers (run h xs m0))
                \<and> remove1 (response_name msg) (active_speakers (run h xs m0)) = []))
     \<and> (\<forall>k m. max_turns m = Some k \<and> k \<le> current_turn m + 1 \<longrightarrow>
          fst (apply_max_turns h True m) = True
          \<and> current_turn (snd (apply_max_turns h True m)) = 0
          \<and> output_message_queue (snd (apply_max_turns h True m)) = output_message_queue m
               @ [QTermination (GroupChatTermination (StopMessage (max_turns_message k) (name m)) None)])
     \<and> (\<forall>msg k. x = InResponse msg
            \<and> response_name msg \<in> set (active_speakers (run h xs m0))
            \<and> remove1 (response_name msg) (active_speakers (run h xs m0)) = []
            \<and> max_turns (run h xs m0) = Some k \<and> k \<le> current_turn (run h xs m0) + 1
            \<and> fst (handle h x (run h xs m0)) = None \<longrightarrow>
          (\<exists>stop. output_message_queue (snd (handle h x (run h xs m0))) =
             output_message_queue (run h xs m0) @ [QTermination (GroupChatTermination stop None)])
          \<and> current_turn (snd (handle h x (run h xs m0))) = 0)"
proof -
  let ?m = "run h xs m0"
  obtain r m' where hm: "handle h x ?m = (r, m')" by (cases "handle h x ?m")
  from init_turn_in_range [OF assms]
  have "0 \<le> current_turn m0" "\<forall>k. max_turns m0 = Some k \<longrightarrow> current_turn m0 < k" by simp_all
  from run_keeps_turn_in_range [OF this, of h xs]
  have inv: "0 \<le> current_turn ?m" "\<forall>k. max_turns ?m = Some k \<longrightarrow> current_turn ?m < k"
    by simp_all
  have step: "current_turn m' \<le> current_turn ?m + 1"
    "current_turn ?m < current_turn m' \<longrightarrow>
          current_turn m' = current_turn ?m + 1
          \<and> (\<exists>msg. x = InResponse msg \<and> response_name msg \<in> set (active_speakers ?m)
                \<and> remove1 (response_name msg) (active_speakers ?m) = [])"
    using handle_turn(2) [OF hm] inv(1) by auto
  have limit: "\<forall>k m. max_turns m = Some k \<and> k \<le> current_turn m + 1 \<longrightarrow>
          fst (apply_max_turns h True m) = True
          \<and> current_turn (snd (apply_max_turns h True m)) = 0
          \<and> output_message_queue (snd (apply_max_turns h True m)) = output_message_queue m
               @ [QTermination (GroupChatTermination (StopMessage (max_turns_message k) (name m)) None)]"
    by (auto simp: apply_max_turns_at_limit emit_defs split: option.splits)
  have last: "\<forall>msg k. x = InResponse msg
            \<and> response_name msg \<in> set (active_speakers ?m)
            \<and> remove1 (response_name msg) (active_speakers ?m) = []
            \<and> max_turns ?m = Some k \<and> k \<le> current_turn ?m + 1 \<and> r = None \<longrightarrow>
          (\<exists>stop. output_message_queue m' =
             output_message_queue ?m @ [QTermination (GroupChatTermination stop None)])
          \<and> current_turn m' = 0"
    using hm response_at_limit [of h _ ?m m'] by auto
  show ?thesis unfolding hm fst_conv snd_conv
    by (intro conjI inv step limit last)
qed


lemma one_turn_of_two:
  "current_turn (run fixed_hooks [InStart task_start] (xy_manager None (Some 2) (Single ''X''))) = 0"
  "current_turn (snd (handle fixed_hooks (InResponse x_reply)
     (run fixed_hooks [InStart task_start] (xy_manager None (Some 2) (Single ''X''))))) = 1"
  "active_speakers (run fixed_hooks [InStart task_start] (xy_manager None (Some 2) (Single ''X''))) = [''X'']"
  by (simp_all add: xy_defs run_defs emit_defs)

lemma last_turn_of_one:
  "active_speakers (run fixed_hooks [InStart task_start, InResponse y_reply]
      (xy_manager None (Some 1) (Many [''X'', ''Y'']))) = [''X'']"
  "max_turns (run fixed_hooks [InStart task_start, InResponse y_reply]
      (xy_manager None (Some 1) (Many [''X'', ''Y'']))) = Some 1"
  "current_turn (run fixed_hooks [InStart task_start, InResponse y_reply]
      (xy_manager None (Some 1) (Many [''X'', ''Y'']))) = 0"
  "output_message_queue (run fixed_hooks [InStart task_start, InResponse y_reply]
      (xy_manager None (Some 1) (Many [''X'', ''Y'']))) = [QMessage (TextMessage ''task'' ''user'')]"
  "fst (handle fixed_hooks (InResponse x_reply) (run fixed_hooks [InStart task_start, InResponse y_reply]
      (xy_manager None (Some 1) (Many [''X'', ''Y''])))) = None"
  by (simp_all add: xy_defs run_defs emit_defs)

theorem turn_counter_steps_witness:
  "init (xy_config None (Some 2) (Single ''X'')) = Inr (xy_manager None (Some 2) (Single ''X''))
   \<and> current_turn (run fixed_hooks [InStart task_start] (xy_manager None (Some 2) (Single ''X'')))
        < current_turn (snd (handle fixed_hooks (InResponse x_reply)
            (run fixed_hooks [InStart task_start] (xy_manager None (Some 2) (Single ''X'')))))
   \<and> current_turn (snd (handle fixed_hooks (InResponse x_reply)
         (run fixed_hooks [InStart task_start] (xy_manager None (Some 2) (Single ''X'')))))
        = current_turn (run fixed_hooks [InStart task_start] (xy_manager None (Some 2) (Single ''X''))) + 1
   \<and> init (xy_config None (Some 1) (Many [''X'', ''Y''])) = Inr (xy_manager None (Some 1) (Many [''X'', ''Y'']))
   \<and> fst (handle fixed_hooks (InResponse x_reply) (run fixed_hooks [InStart task_start, InResponse y_reply]
         (xy_manager None (Some 1) (Many [''X'', ''Y''])))) = None
   \<and> (\<exists>stop. output_message_queue (snd (handle fixed_hooks (InResponse x_reply)
           (run fixed_hooks [InStart task_start, InResponse y_reply]
              (xy_manager None (Some 1) (Many [''X'', ''Y''])))))
         = [QMessage (TextMessage ''task'' ''user''), QTermination (GroupChatTermination stop None)])
   \<and> current_turn (snd (handle fixed_hooks (InResponse x_reply)
         (run fixed_hooks [InStart task_start, InResponse y_reply]
            (xy_manager None (Some 1) (Many [''X'', ''Y''])))))  = 0
   \<and> fst (apply_max_turns fixed_hooks True (xy_manager None (Some 1) (Single ''X''))) = True
   \<and> output_message_queue (snd (apply_max_turns fixed_hooks True (xy_manager None (Some 1) (Single ''X''))))
        = [QTermination (GroupChatTermination (StopMessage (max_turns_message 1) ''manager'') None)]"
proof -
  have i2: "init (xy_config None (Some 2) (Single ''X'')) = Inr (xy_manager None (Some 2) (Single ''X''))"
    and i1: "init (xy_config None (Some 1) (Many [''X'', ''Y'']))
               = Inr (xy_manager None (Some 1) (Many [''X'', ''Y'']))"
    by (simp_all add: init_xy_config)
  have x: "response_name x_reply = ''X''" by (simp add: x_reply_def)
  let ?m2 = "run fixed_hooks [InStart task_start] (xy_manager None (Some 2) (Single ''X''))"
  let ?m1 = "run fixed_hooks [InStart task_start, InResponse y_reply]
               (xy_manager None (Some 1) (Many [''X'', ''Y'']))"
  from turn_counter_steps [OF i2, where h = fixed_hooks and xs = "[InStart task_start]"
      and x = "InResponse x_reply"]
  have "current_turn ?m2 < current_turn (snd (handle fixed_hooks (InResponse x_reply) ?m2)) \<longrightarrow>
          current_turn (snd (handle fixed_hooks (InResponse x_reply) ?m2)) = current_turn ?m2 + 1
          \<and> (\<exists>msg. InResponse x_reply = InResponse msg
                \<and> response_name msg \<in> set (active_speakers ?m2)
                \<and> remove1 (response_name msg) (active_speakers ?m2) = [])"
    by (elim conjE)
  moreover have lt: "current_turn ?m2 < current_turn (snd (handle fixed_hooks (InResponse x_reply) ?m2))"
    unfolding one_turn_of_two by simp
  ultimately
  have "current_turn (snd (handle fixed_hooks (InResponse x_reply) ?m2)) = current_turn ?m2 + 1"
    by (elim impE conjE)
  moreover
  from turn_counter_steps [OF i1, where h = fixed_hooks and xs = "[InStart task_start, InResponse y_reply]"
      and x = "InResponse x_reply"]
  have "\<forall>msg k. InResponse x_reply = InResponse msg
            \<and> response_name msg \<in> set (active_speakers ?m1)
            \<and> remove1 (response_name msg) (active_speakers ?m1) = []
            \<and> max_turns ?m1 = Some k \<and> k \<le> current_turn ?m1 + 1
            \<and> fst (handle fixed_hooks (InResponse x_reply) ?m1) = None \<longrightarrow>
          (\<exists>stop. output_message_queue (snd (handle fixed_hooks (InResponse x_reply) ?m1)) =
             output_message_queue ?m1 @ [QTermination (GroupChatTermination stop None)])
          \<and> current_turn (snd (handle fixed_hooks (InResponse x_reply) ?m1)) = 0"
    by (elim conjE)
  then have "(\<exists>stop. output_message_queue (snd (handle fixed_hooks (InResponse x_reply) ?m1)) =
             output_message_queue ?m1 @ [QTermination (GroupChatTermination stop None)])
          \<and> current_turn (snd (handle fixed_hooks (InResponse x_reply) ?m1)) = 0"
    using last_turn_of_one(1,2,3,5) x by (elim allE [of _ x_reply] allE [of _ 1] impE) simp_all
  then have "(\<exists>stop. output_message_queue (snd (handle fixed_hooks (InResponse x_reply) ?m1))
         = [QMessage (TextMessage ''task'' ''user''), QTermination (GroupChatTermination stop None)])
       \<and> current_turn (snd (handle fixed_hooks (InResponse x_reply) ?m1)) = 0"
    unfolding last_turn_of_one(4) by simp
  moreover
  from turn_counter_steps [OF i2, where h = fixed_hooks and xs = "[]" and x = InPause]
  have "\<forall>k m. max_turns m = Some k \<and> k \<le> current_turn m + 1 \<longrightarrow>
          fst (apply_max_turns fixed_hooks True m) = True
          \<and> current_turn (snd (apply_max_turns fixed_hooks True m)) = 0
          \<and> output_message_queue (snd (apply_max_turns fixed_hooks True m)) = output_message_queue m
               @ [QTermination (GroupChatTermination (StopMessage (max_turns_message k) (name m)) None)]"
    by (elim conjE)
  from this [rule_format, of "xy_manager None (Some 1) (Single ''X'')" 1]
  have "fst (apply_max_turns fixed_hooks True (xy_manager None (Some 1) (Single ''X''))) = True
      \<and> output_message_queue (snd (apply_max_turns fixed_hooks True (xy_manager None (Some 1) (Single ''X''))))
          = [QTermination (GroupChatTermination (StopMessage (max_turns_message 1) ''manager'') None)]"
    by simp
  ultimately show ?thesis using i1 i2 lt last_turn_of_one(5) by (intro conjI) simp_all
qed


section \<open>The maximum number of turns\<close>

text \<open>
  C6. When a response completes a round, the termination condition (if there is one)
  does not signal, and the incremented turn counter has reached the maximum number of
  turns \<open>k\<close>, the handler builds the stop message "Maximum number of turns k reached."
  with the manager's name as its source, resets the termination condition if there is
  one, sets the turn counter to 0, puts exactly one termination event with that stop
  message in the output queue and returns: the speaker selector is not called.
\<close>

theorem max_turns_stop:
  assumes "response_name msg \<in> set (active_speakers m)"
    and "remove1 (response_name msg) (active_speakers m) = []"
    and "case termination_condition m of
           None \<Rightarrow> True
         | Some tc \<Rightarrow> fst (tc_call h tc (response_delta msg)) = Inr None"
    and "max_turns m = Some k" and "k \<le> current_turn m + 1"
  shows "handle_agent_response h msg m =
     (None,
      m\<lparr>message_thread := message_thread m @ response_delta msg,
        active_speakers := [],
        current_turn := 0,
        termination_condition :=
          map_option (\<lambda>tc. tc_reset h (snd (tc_call h tc (response_delta msg)))) (termination_condition m),
        output_message_queue := output_message_queue m
          @ [QTermination (GroupChatTermination
               (StopMessage (''Maximum number of turns '' @ str_int k @ '' reached.'') (name m)) None)],
        trace := trace m
          @ (case termination_condition m of
               None \<Rightarrow> []
             | Some tc \<Rightarrow> [Evaluate (response_delta msg), ResetCondition])
          @ [Publish (output_topic_type m) (TerminationEvent (GroupChatTermination
               (StopMessage (''Maximum number of turns '' @ str_int k @ '' reached.'') (name m)) None)),
             Put (QTermination (GroupChatTermination
               (StopMessage (''Maximum number of turns '' @ str_int k @ '' reached.'') (name m)) None))]\<rparr>)
   \<and> filter is_Select (trace (snd (handle_agent_response h msg m))) = filter is_Select (trace m)"
proof (cases "termination_condition m")
  case None
  with assms(4,5) show ?thesis
    by (simp add: handle_agent_response_def response_round_complete [OF assms(1,2)]
        apply_termination_condition_def apply_max_turns_def emit_defs max_turns_message_def)
next
  case (Some tc)
  obtain r tc' where c: "tc_call h tc (response_delta msg) = (r, tc')"
    by (cases "tc_call h tc (response_delta msg)")
  with assms(3) Some have "r = Inr None" by simp
  with c Some assms(4,5) show ?thesis
    by (simp add: handle_agent_response_def response_round_complete [OF assms(1,2)]
        apply_termination_condition_def apply_max_turns_def emit_defs max_turns_message_def)
qed

lemma str_int_1: "str_int 1 = ''1''"
  by (simp add: str_int_def str_nat.simps [of "Suc 0"])

lemma started_with_limit_1:
  "active_speakers (run fixed_hooks [InStart task_start] (xy_manager (Some False) (Some 1) (Single ''X''))) = [''X'']"
  "termination_condition (run fixed_hooks [InStart task_start] (xy_manager (Some False) (Some 1) (Single ''X'')))
     = Some False"
  "max_turns (run fixed_hooks [InStart task_start] (xy_manager (Some False) (Some 1) (Single ''X''))) = Some 1"
  "current_turn (run fixed_hooks [InStart task_start] (xy_manager (Some False) (Some 1) (Single ''X''))) = 0"
  "output_message_queue (run fixed_hooks [InStart task_start] (xy_manager (Some False) (Some 1) (Single ''X'')))
     = [QMessage (TextMessage ''task'' ''user'')]"
  "name (run fixed_hooks [InStart task_start] (xy_manager (Some False) (Some 1) (Single ''X''))) = ''manager''"
  by (simp_all add: xy_defs run_defs emit_defs)

theorem max_turns_stop_witness:
  "response_name x_reply \<in> set (active_speakers
       (run fixed_hooks [InStart task_start] (xy_manager (Some False) (Some 1) (Single ''X''))))
   \<and> remove1 (response_name x_reply) (active_speakers
       (run fixed_hooks [InStart task_start] (xy_manager (Some False) (Some 1) (Single ''X'')))) = []
   \<and> fst (tc_call fixed_hooks False (response_delta x_reply)) = Inr None
   \<and> fst (handle_agent_response fixed_hooks x_reply
       (run fixed_hooks [InStart task_start] (xy_manager (Some False) (Some 1) (Single ''X'')))) = None
   \<and> output_message_queue (snd (handle_agent_response fixed_hooks x_reply
       (run fixed_hooks [InStart task_start] (xy_manager (Some False) (Some 1) (Single ''X'')))))
      = [QMessage (TextMessage ''task'' ''user''),
         QTermination (GroupChatTermination (StopMessage ''Maximum number of turns 1 reached.'' ''manager'') None)]
   \<and> current_turn (snd (handle_agent_response fixed_hooks x_reply
       (run fixed_hooks [InStart task_start] (xy_manager (Some False) (Some 1) (Single ''X''))))) = 0
   \<and> termination_condition (snd (handle_agent_response fixed_hooks x_reply
       (run fixed_hooks [InStart task_start] (xy_manager (Some False) (Some 1) (Single ''X'')))))
      = Some False"
proof -
  let ?m = "run fixed_hooks [InStart task_start] (xy_manager (Some False) (Some 1) (Single ''X''))"
  have x: "response_name x_reply = ''X''" by (simp add: x_reply_def)
  have q: "fst (tc_call fixed_hooks False (response_delta x_reply)) = Inr None"
    by (simp add: xy_defs)
  have r: "tc_reset fixed_hooks (snd (tc_call fixed_hooks False (response_delta x_reply))) = False"
    by (simp add: fixed_hooks_def)
  have a: "response_name x_reply \<in> set (active_speakers ?m)"
    and b: "remove1 (response_name x_reply) (active_speakers ?m) = []"
    and c: "case termination_condition ?m of None \<Rightarrow> True
            | Some tc \<Rightarrow> fst (tc_call fixed_hooks tc (response_delta x_reply)) = Inr None"
    and d: "max_turns ?m = Some 1" and e: "1 \<le> current_turn ?m + 1"
    unfolding started_with_limit_1 x using q by simp_all
  from max_turns_stop [OF a b c d e]
  have "fst (handle_agent_response fixed_hooks x_reply ?m) = None
      \<and> output_message_queue (snd (handle_agent_response fixed_hooks x_reply ?m))
          = [QMessage (TextMessage ''task'' ''user''),
             QTermination (GroupChatTermination (StopMessage ''Maximum number of turns 1 reached.'' ''manager'') None)]
      \<and> current_turn (snd (handle_agent_response fixed_hooks x_reply ?m)) = 0
      \<and> termination_condition (snd (handle_agent_response fixed_hooks x_reply ?m)) = Some False"
    unfolding started_with_limit_1 by (simp add: str_int_1 r)
  with a b q show ?thesis by (intro conjI) simp_all
qed


section \<open>A start with initial messages\<close>

text \<open>
  C9. A start message with initial messages, handled when the conversation has not
  already terminated and the validator has accepted the messages: the termination
  condition is called once, on exactly those messages, and the turn counter is not
  incremented (it is as before, or 0 after a stop). If the condition signals a stop,
  the handler returns with exactly one termination event put in the output queue, after
  the initial messages if they were asked for, and the speaker selector is not called.
\<close>

theorem start_with_messages:
  assumes "\<not> already_terminated h m"
    and "messages start = Some msgs"
    and "validate_group_state h (sub m) (Some msgs) = (None, sv)"
    and "termination_condition m = Some tc"
  shows "filter is_Evaluate (trace (snd (handle_start h start m)))
           = filter is_Evaluate (trace m) @ [Evaluate msgs]
     \<and> (current_turn (snd (handle_start h start m)) = current_turn m
          \<or> current_turn (snd (handle_start h start m)) = 0)
     \<and> (fst (tc_call h tc msgs) = Inr (Some stop) \<longrightarrow>
           fst (handle_start h start m) = None
         \<and> output_message_queue (snd (handle_start h start m))
             = output_message_queue m
               @ (if output_task_messages start then map QMessage msgs else [])
               @ [QTermination (GroupChatTermination stop None)]
         \<and> terminations (output_message_queue (snd (handle_start h start m)))
             = terminations (output_message_queue m) + 1
         \<and> filter is_Select (trace (snd (handle_start h start m))) = filter is_Select (trace m)
         \<and> current_turn (snd (handle_start h start m)) = 0
         \<and> termination_condition (snd (handle_start h start m))
             = Some (tc_reset h (snd (tc_call h tc msgs))))"
proof -
  let ?m1 = "m\<lparr>sub := sv, trace := trace m @ [Validate (Some msgs)]\<rparr>"
  let ?m5 = "relay_start_messages msgs (output_task_messages start) ?m1"
  from assms(2,3) have val: "validate_group_state h (sub m) (messages start) = (None, sv)" by simp
  have hs: "handle_start h start m =
      (case apply_termination_condition h msgs False ?m5 of
         (Inl e, m6) \<Rightarrow> (Some e, m6)
       | (Inr True, m6) \<Rightarrow> (None, m6)
       | (Inr False, m6) \<Rightarrow> transition_to_next_speakers h m6)"
    using start_validated [OF assms(1) val] assms(2) by simp
  obtain r m' where res: "handle_start h start m = (r, m')" by (cases "handle_start h start m")
  obtain a m6 where a: "apply_termination_condition h msgs False ?m5 = (a, m6)"
    by (cases "apply_termination_condition h msgs False ?m5")
  have tc5: "termination_condition ?m5 = Some tc" using assms(4) by (simp add: relay_frame)
  have ev6: "filter is_Evaluate (trace m6) = filter is_Evaluate (trace m) @ [Evaluate msgs]"
    using atc_evaluate [OF a] tc5 by (simp add: relay_frame)
  have ev: "filter is_Evaluate (trace m') = filter is_Evaluate (trace m) @ [Evaluate msgs]"
  proof (cases a)
    case (Inl e)
    with hs a res ev6 show ?thesis by simp
  next
    case (Inr b)
    show ?thesis
    proof (cases b)
      case True
      with hs a res ev6 Inr show ?thesis by simp
    next
      case False
      with hs a res Inr have "transition_to_next_speakers h m6 = (r, m')" by simp
      from transition_frame(12) [OF this] ev6 show ?thesis by simp
    qed
  qed
  have stop: "fst (tc_call h tc msgs) = Inr (Some stop) \<longrightarrow>
           r = None
         \<and> output_message_queue m' = output_message_queue m
               @ (if output_task_messages start then map QMessage msgs else [])
               @ [QTermination (GroupChatTermination stop None)]
         \<and> terminations (output_message_queue m') = terminations (output_message_queue m) + 1
         \<and> filter is_Select (trace m') = filter is_Select (trace m)
         \<and> current_turn m' = 0
         \<and> termination_condition m' = Some (tc_reset h (snd (tc_call h tc msgs)))"
  proof
    assume s: "fst (tc_call h tc msgs) = Inr (Some stop)"
    obtain tc' where c: "tc_call h tc msgs = (Inr (Some stop), tc')"
      using s by (cases "tc_call h tc msgs") simp
    have a': "apply_termination_condition h msgs False ?m5 =
        (Inr True, signal_termination stop
           (?m5\<lparr>termination_condition := Some (tc_reset h tc'),
                 trace := trace ?m5 @ [Evaluate msgs, ResetCondition],
                 current_turn := 0\<rparr>))"
      using tc5 c by (simp add: apply_termination_condition_def Let_def)
    with hs res have "r = None"
      and m': "m' = signal_termination stop
           (?m5\<lparr>termination_condition := Some (tc_reset h tc'),
                 trace := trace ?m5 @ [Evaluate msgs, ResetCondition],
                 current_turn := 0\<rparr>)"
      by simp_all
    then show "r = None
         \<and> output_message_queue m' = output_message_queue m
               @ (if output_task_messages start then map QMessage msgs else [])
               @ [QTermination (GroupChatTermination stop None)]
         \<and> terminations (output_message_queue m') = terminations (output_message_queue m) + 1
         \<and> filter is_Select (trace m') = filter is_Select (trace m)
         \<and> current_turn m' = 0
         \<and> termination_condition m' = Some (tc_reset h (snd (tc_call h tc msgs)))"
      using c by (simp add: emit_defs relay_frame)
  qed
  from ev start_summary(2) [OF res] stop show ?thesis unfolding res fst_conv snd_conv
    by (intro conjI)
qed

lemma fixed_hooks_sel [simp]:
  "validate_group_state fixed_hooks s t = (None, s)"
  "select_speaker fixed_hooks s th = (Inr s, s)"
  "tc_call fixed_hooks = done_call" "tc_terminated fixed_hooks t' = t'" "tc_reset fixed_hooks t' = False"
  by (simp_all add: fixed_hooks_def)

theorem start_with_messages_witness:
  "\<not> already_terminated fixed_hooks (xy_manager (Some False) None (Single ''X''))
   \<and> messages done_start = Some [TextMessage ''DONE'' ''user'']
   \<and> fst (tc_call fixed_hooks False [TextMessage ''DONE'' ''user''])
        = Inr (Some (StopMessage ''Text DONE mentioned'' ''TextMentionTermination''))
   \<and> fst (handle_start fixed_hooks done_start (xy_manager (Some False) None (Single ''X''))) = None
   \<and> output_message_queue (snd (handle_start fixed_hooks done_start (xy_manager (Some False) None (Single ''X''))))
        = [QMessage (TextMessage ''DONE'' ''user''),
           QTermination (GroupChatTermination (StopMessage ''Text DONE mentioned'' ''TextMentionTermination'') None)]
   \<and> filter is_Select (trace (snd (handle_start fixed_hooks done_start
          (xy_manager (Some False) None (Single ''X''))))) = []
   \<and> filter is_Evaluate (trace (snd (handle_start fixed_hooks done_start
          (xy_manager (Some False) None (Single ''X''))))) = [Evaluate [TextMessage ''DONE'' ''user'']]
   \<and> current_turn (snd (handle_start fixed_hooks done_start (xy_manager (Some False) None (Single ''X'')))) = 0"
proof -
  let ?m = "xy_manager (Some False) None (Single ''X'')"
  have nt: "\<not> already_terminated fixed_hooks ?m" by (simp add: already_terminated_def)
  have ms: "messages done_start = Some [TextMessage ''DONE'' ''user'']"
    and ot: "output_task_messages done_start" by (simp_all add: done_start_def)
  have val: "validate_group_state fixed_hooks (sub ?m) (Some [TextMessage ''DONE'' ''user''])
      = (None, Single ''X'')" by simp
  have tc: "termination_condition ?m = Some False" by simp
  have call: "fst (tc_call fixed_hooks False [TextMessage ''DONE'' ''user''])
        = Inr (Some (StopMessage ''Text DONE mentioned'' ''TextMentionTermination''))"
    by (simp add: done_call_def)
  from start_with_messages [OF nt ms val tc,
      where stop = "StopMessage ''Text DONE mentioned'' ''TextMentionTermination''"] call ot
  have "fst (handle_start fixed_hooks done_start ?m) = None
   \<and> output_message_queue (snd (handle_start fixed_hooks done_start ?m))
        = [QMessage (TextMessage ''DONE'' ''user''),
           QTermination (GroupChatTermination (StopMessage ''Text DONE mentioned'' ''TextMentionTermination'') None)]
   \<and> filter is_Select (trace (snd (handle_start fixed_hooks done_start ?m))) = []
   \<and> filter is_Evaluate (trace (snd (handle_start fixed_hooks done_start ?m)))
        = [Evaluate [TextMessage ''DONE'' ''user'']]
   \<and> current_turn (snd (handle_start fixed_hooks done_start ?m)) = 0"
    by simp
  with nt ms call show ?thesis by (intro conjI) simp_all
qed


section \<open>Resetting the termination condition\<close>

lemma stop_resets:
  assumes "apply_termination_condition h d inc m = (Inr True, m')"
    and "termination_condition m = Some tc"
  shows "\<exists>t mid ev. termination_condition m' = Some (tc_reset h t)
           \<and> trace m' = trace m @ mid
                @ [ResetCondition, Publish (output_topic_type m) (TerminationEvent ev), Put (QTermination ev)]
           \<and> output_message_queue m' = output_message_queue m @ [QTermination ev]"
proof -
  obtain r tc' where c: "tc_call h tc d = (r, tc')" by (cases "tc_call h tc d")
  show ?thesis
  proof (cases r)
    case (Inl e)
    with c assms show ?thesis by (simp add: apply_termination_condition_def)
  next
    case (Inr s)
    show ?thesis
    proof (cases s)
      case (Some stop)
      with c Inr assms have "m' = signal_termination stop
         (m\<lparr>termination_condition := Some (tc_reset h tc'),
            trace := trace m @ [Evaluate d, ResetCondition], current_turn := 0\<rparr>)"
        by (simp add: apply_termination_condition_def Let_def)
      then have "termination_condition m' = Some (tc_reset h tc')
          \<and> trace m' = trace m @ [Evaluate d]
               @ [ResetCondition, Publish (output_topic_type m) (TerminationEvent (GroupChatTermination stop None)),
                  Put (QTermination (GroupChatTermination stop None))]
          \<and> output_message_queue m' = output_message_queue m @ [QTermination (GroupChatTermination stop None)]"
        by (simp add: emit_defs)
      then show ?thesis by blast
    next
      case None
      let ?m1 = "m\<lparr>termination_condition := Some tc', trace := trace m @ [Evaluate d]\<rparr>"
      from c Inr None assms have "apply_max_turns h inc ?m1 = (True, m')"
        by (simp add: apply_termination_condition_def split: prod.splits)
      from apply_max_turns_True [OF this] obtain k where
        "m' = ?m1\<lparr>current_turn := 0,
                    termination_condition := map_option (tc_reset h) (termination_condition ?m1),
                    output_message_queue := output_message_queue ?m1
                       @ [QTermination (GroupChatTermination (StopMessage (max_turns_message k) (name ?m1)) None)],
                    trace := trace ?m1 @ (case termination_condition ?m1 of None \<Rightarrow> [] | Some tc \<Rightarrow> [ResetCondition])
                       @ [Publish (output_topic_type ?m1)
                            (TerminationEvent (GroupChatTermination (StopMessage (max_turns_message k) (name ?m1)) None)),
                          Put (QTermination (GroupChatTermination (StopMessage (max_turns_message k) (name ?m1)) None))]\<rparr>"
        by blast
      then have "termination_condition m' = Some (tc_reset h tc')
          \<and> trace m' = trace m @ [Evaluate d]
               @ [ResetCondition,
                  Publish (output_topic_type m)
                    (TerminationEvent (GroupChatTermination (StopMessage (max_turns_message k) (name m)) None)),
                  Put (QTermination (GroupChatTermination (StopMessage (max_turns_message k) (name m)) None))]
          \<and> output_message_queue m' = output_message_queue m
               @ [QTermination (GroupChatTermination (StopMessage (max_turns_message k) (name m)) None)]"
        by simp
      then show ?thesis by blast
    qed
  qed
qed

text \<open>
  C8 (as amended). When the manager stops the conversation through
  \<^verbatim>\<open>_apply_termination_condition\<close> (a stop signalled by the termination condition,
  or the maximum number of turns) and a termination condition is set, the condition's
  \<^verbatim>\<open>reset\<close> is called immediately before the termination event is published and
  put in the output queue, the turn counter is 0, and, for a condition whose
  \<^verbatim>\<open>reset\<close> takes the \<^verbatim>\<open>terminated\<close> flag down, the flag is down afterwards.
  On the error paths the condition is not reset: an error message of a participant
  leaves the condition as it is, and no handler that raises has called \<^verbatim>\<open>reset\<close>.
\<close>

theorem reset_on_stop:
  assumes "\<forall>t. \<not> tc_terminated h (tc_reset h t)"
  shows "(apply_termination_condition h delta inc m = (Inr True, ma) \<and> termination_condition m = Some tc \<longrightarrow>
            \<not> already_terminated h ma \<and> current_turn ma = 0
            \<and> (\<exists>t mid ev. termination_condition ma = Some (tc_reset h t)
                  \<and> trace ma = trace m @ mid
                       @ [ResetCondition, Publish (output_topic_type m) (TerminationEvent ev),
                          Put (QTermination ev)]
                  \<and> output_message_queue ma = output_message_queue m @ [QTermination ev]))
     \<and> termination_condition (snd (handle_group_chat_error err m)) = termination_condition m
     \<and> count_list (trace (snd (handle_group_chat_error err m))) ResetCondition
          = count_list (trace m) ResetCondition
     \<and> (handle_agent_response h msg m = (Some e, mb) \<longrightarrow>
          count_list (trace mb) ResetCondition = count_list (trace m) ResetCondition)
     \<and> (handle_start h start m = (Some ea, mc) \<longrightarrow>
          count_list (trace mc) ResetCondition = count_list (trace m) ResetCondition)"
proof (intro conjI impI)
  assume a: "apply_termination_condition h delta inc m = (Inr True, ma) \<and> termination_condition m = Some tc"
  then have a1: "apply_termination_condition h delta inc m = (Inr True, ma)"
    and a2: "termination_condition m = Some tc" by simp_all
  from stop_resets [OF a1 a2]
  show "\<exists>t mid ev. termination_condition ma = Some (tc_reset h t)
                  \<and> trace ma = trace m @ mid
                       @ [ResetCondition, Publish (output_topic_type m) (TerminationEvent ev),
                          Put (QTermination ev)]
                  \<and> output_message_queue ma = output_message_queue m @ [QTermination ev]" .
  then show "\<not> already_terminated h ma" using assms by (auto simp: already_terminated_def)
  from atc_True(2) [OF a1] show "current_turn ma = 0" .
next
  assume r: "handle_agent_response h msg m = (Some e, mb)"
  obtain m1 where t: "handle_agent_response_try h msg m = (Some e, m1)"
    and mb: "mb = except_Exception e m1"
    using r by (auto simp: handle_agent_response_def split: prod.splits option.splits)
  from try_raises(4) [OF t] mb
  show "count_list (trace mb) ResetCondition = count_list (trace m) ResetCondition" by simp
next
  assume "handle_start h start m = (Some ea, mc)"
  from start_summary(7) [OF this]
  show "count_list (trace mc) ResetCondition = count_list (trace m) ResetCondition" by simp
qed (simp_all add: handle_group_chat_error_def emit_defs)

theorem error_without_reset_counterexample:
  "fst (handle_group_chat_error (SerializableException (OtherException ''participant failed''))
          (xy_manager (Some True) None (Single ''X''))) = None
   \<and> terminations (output_message_queue
         (snd (handle_group_chat_error (SerializableException (OtherException ''participant failed''))
            (xy_manager (Some True) None (Single ''X''))))) = 1
   \<and> ResetCondition \<notin> set (trace
         (snd (handle_group_chat_error (SerializableException (OtherException ''participant failed''))
            (xy_manager (Some True) None (Single ''X'')))))
   \<and> already_terminated fixed_hooks
         (snd (handle_group_chat_error (SerializableException (OtherException ''participant failed''))
            (xy_manager (Some True) None (Single ''X''))))"
  by (simp add: handle_group_chat_error_def emit_defs already_terminated_def)

theorem reset_on_stop_witness:
  "(\<forall>t. \<not> tc_terminated fixed_hooks (tc_reset fixed_hooks t))
   \<and> (\<exists>ma. apply_termination_condition fixed_hooks [TextMessage ''DONE'' ''user''] False
             (xy_manager (Some False) None (Single ''X'')) = (Inr True, ma)
         \<and> \<not> already_terminated fixed_hooks ma
         \<and> (\<exists>t mid ev. termination_condition ma = Some (tc_reset fixed_hooks t)
               \<and> trace ma = mid @ [ResetCondition, Publish ''output'' (TerminationEvent ev), Put (QTermination ev)]))
   \<and> (\<exists>mb. handle_agent_response fixed_hooks y_reply (xy_manager (Some False) None (Single ''X''))
             = (Some (ValueError ''list.remove(x): x not in list''), mb)
         \<and> count_list (trace mb) ResetCondition = 0)
   \<and> (\<exists>mc. handle_start rejecting_hooks task_start (xy_manager None (Some 1) (Single ''X''))
             = (Some (ValueError ''invalid group state''), mc)
         \<and> count_list (trace mc) ResetCondition = 0)"
proof -
  let ?m = "xy_manager (Some False) None (Single ''X'')"
  have contract: "\<forall>t. \<not> tc_terminated fixed_hooks (tc_reset fixed_hooks t)" by simp
  have contract': "\<forall>t. \<not> tc_terminated rejecting_hooks (tc_reset rejecting_hooks t)"
    by (simp add: rejecting_hooks_def fixed_hooks_def)
  obtain ma where a: "apply_termination_condition fixed_hooks [TextMessage ''DONE'' ''user''] False ?m
      = (Inr True, ma)"
    by (simp add: done_stops)
  obtain mb where b: "handle_agent_response fixed_hooks y_reply ?m
      = (Some (ValueError ''list.remove(x): x not in list''), mb)"
    using late_reply by blast
  obtain mc where c: "handle_start rejecting_hooks task_start (xy_manager None (Some 1) (Single ''X''))
      = (Some (ValueError ''invalid group state''), mc)"
    by (simp add: start_rejected)
  from reset_on_stop [OF contract, where delta = "[TextMessage ''DONE'' ''user'']" and inc = False
      and m = ?m and ma = ma and tc = False and msg = y_reply
      and e = "ValueError ''list.remove(x): x not in list''" and mb = mb]
    a b
  have "\<not> already_terminated fixed_hooks ma
      \<and> (\<exists>t mid ev. termination_condition ma = Some (tc_reset fixed_hooks t)
            \<and> trace ma = mid @ [ResetCondition, Publish ''output'' (TerminationEvent ev), Put (QTermination ev)])
      \<and> count_list (trace mb) ResetCondition = 0"
    by simp blast
  moreover
  from reset_on_stop [OF contract', where m = "xy_manager None (Some 1) (Single ''X'')"
      and start = task_start and ea = "ValueError ''invalid group state''" and mc = mc] c
  have "count_list (trace mc) ResetCondition = 0" by simp
  ultimately show ?thesis using contract a b c by blast
qed


section \<open>Two responses in one round\<close>

lemma remove1_of_two:
  assumes "na \<noteq> nb" and "set xs = {na, nb}" and "distinct xs"
  shows "remove1 na xs = [nb]"
proof -
  from assms have "length xs = 2" using distinct_card [of xs] by simp
  then obtain x y where xs: "xs = [x, y]"
    by (auto simp: length_Suc_conv numeral_2_eq_2)
  with assms show ?thesis by (auto simp: doubleton_eq_iff)
qed

text \<open>
  C7 (as amended). Two participants are the active speakers of a round, and both
  respond, in either order. Handling the response that arrives first appends its delta
  to the thread and takes its sender out of the active speakers, and does nothing else:
  the termination condition is not evaluated and the speaker selector is not called.
  After the response that arrives second, the thread holds both deltas in the order of
  arrival. The speaker selector is called at most once, in the handling of the second
  response, on the thread with both deltas; it is called exactly once when the
  termination evaluation of the completed round neither stops the conversation (by the
  condition or by the maximum number of turns) nor raises, and not at all otherwise.
\<close>

theorem two_responses_one_round:
  assumes "na \<noteq> nb" and "set (active_speakers m) = {na, nb}" and "distinct (active_speakers m)"
    and "response_name msga = na" and "response_name msgb = nb"
  shows "handle_agent_response h msga m =
           (None, m\<lparr>message_thread := message_thread m @ response_delta msga, active_speakers := [nb]\<rparr>)
     \<and> message_thread (snd (handle_agent_response h msgb (snd (handle_agent_response h msga m))))
          = message_thread m @ response_delta msga @ response_delta msgb
     \<and> filter is_Select (trace (snd (handle_agent_response h msgb (snd (handle_agent_response h msga m)))))
          = filter is_Select (trace m)
            @ (if fst (apply_termination_condition h (response_delta msgb) True
                        (m\<lparr>message_thread := message_thread m @ response_delta msga @ response_delta msgb,
                           active_speakers := []\<rparr>)) = Inr False
               then [Select (message_thread m @ response_delta msga @ response_delta msgb)]
               else [])"
proof -
  let ?da = "response_delta msga" and ?db = "response_delta msgb"
  let ?m1 = "m\<lparr>message_thread := message_thread m @ ?da, active_speakers := [nb]\<rparr>"
  let ?m2 = "m\<lparr>message_thread := message_thread m @ ?da @ ?db, active_speakers := []\<rparr>"
  have rem: "remove1 na (active_speakers m) = [nb]"
    using remove1_of_two [OF assms(1,2,3)] .
  have first: "handle_agent_response h msga m = (None, ?m1)"
    using response_round_open [of msga m h] assms(2,4) rem by simp
  have act: "response_name msgb \<in> set (active_speakers ?m1)"
    and emp: "remove1 (response_name msgb) (active_speakers ?m1) = []"
    using assms(5) by simp_all
  obtain r m' where second: "handle_agent_response h msgb ?m1 = (r, m')"
    by (cases "handle_agent_response h msgb ?m1")
  obtain a m3 where a: "apply_termination_condition h ?db True ?m2 = (a, m3)"
    by (cases "apply_termination_condition h ?db True ?m2")
  have tr: "handle_agent_response_try h msgb ?m1 =
           (case (a, m3) of
              (Inl e, m3) \<Rightarrow> (Some e, m3)
            | (Inr True, m3) \<Rightarrow> (None, m3)
            | (Inr False, m3) \<Rightarrow> transition_to_next_speakers h m3)"
    using response_round_complete [OF act emp, of h] a by simp
  have thread: "message_thread m' = message_thread m @ ?da @ ?db"
    using response_summary(4) [OF second] by simp
  have sel: "filter is_Select (trace m') = filter is_Select (trace m)
            @ (if a = Inr False then [Select (message_thread m @ ?da @ ?db)] else [])"
  proof (cases a)
    case (Inl e)
    with tr second have "m' = except_Exception e m3" by (simp add: handle_agent_response_def)
    with atc_frame(10) [OF a] Inl show ?thesis by simp
  next
    case (Inr b)
    show ?thesis
    proof (cases b)
      case True
      with tr second Inr have "m' = m3" by (simp add: handle_agent_response_def)
      with atc_frame(10) [OF a] Inr True show ?thesis by simp
    next
      case False
      obtain rt m4 where t: "transition_to_next_speakers h m3 = (rt, m4)"
        by (cases "transition_to_next_speakers h m3")
      with tr second Inr False
      have "m' = (case rt of None \<Rightarrow> m4 | Some e \<Rightarrow> except_Exception e m4)"
        by (auto simp: handle_agent_response_def split: option.splits)
      then have "filter is_Select (trace m') = filter is_Select (trace m4)"
        by (simp split: option.splits)
      with transition_frame(11) [OF t] atc_frame(1,10) [OF a] Inr False show ?thesis by simp
    qed
  qed
  from first thread sel show ?thesis unfolding first snd_conv second a fst_conv
    by (intro conjI)
qed


theorem round_ending_at_limit_counterexample:
  "active_speakers (run fixed_hooks [InStart task_start] (xy_manager None (Some 1) (Many [''X'', ''Y''])))
     = [''X'', ''Y'']
   \<and> filter is_Select (trace (run fixed_hooks [InStart task_start]
         (xy_manager None (Some 1) (Many [''X'', ''Y'']))))
     = [Select [TextMessage ''task'' ''user'']]
   \<and> filter is_Select (trace (run fixed_hooks [InStart task_start, InResponse y_reply, InResponse x_reply]
         (xy_manager None (Some 1) (Many [''X'', ''Y'']))))
     = [Select [TextMessage ''task'' ''user'']]
   \<and> message_thread (run fixed_hooks [InStart task_start, InResponse y_reply, InResponse x_reply]
         (xy_manager None (Some 1) (Many [''X'', ''Y''])))
     = [TextMessage ''task'' ''user'', TextMessage ''from Y'' ''Y'',
        TextMessage ''thinking'' ''X'', TextMessage ''from X'' ''X'']
   \<and> terminations (output_message_queue
         (run fixed_hooks [InStart task_start, InResponse y_reply, InResponse x_reply]
            (xy_manager None (Some 1) (Many [''X'', ''Y''])))) = 1"
  by (simp add: xy_defs run_defs emit_defs)

lemma round_of_x_and_y:
  "active_speakers (run fixed_hooks [InStart task_start] (xy_manager None None (Many [''X'', ''Y''])))
     = [''X'', ''Y'']"
  "message_thread (run fixed_hooks [InStart task_start] (xy_manager None None (Many [''X'', ''Y''])))
     = [TextMessage ''task'' ''user'']"
  "filter is_Select (trace (run fixed_hooks [InStart task_start] (xy_manager None None (Many [''X'', ''Y'']))))
     = [Select [TextMessage ''task'' ''user'']]"
  "fst (apply_termination_condition fixed_hooks (response_delta x_reply) True
     ((run fixed_hooks [InStart task_start] (xy_manager None None (Many [''X'', ''Y''])))
        \<lparr>message_thread := [TextMessage ''task'' ''user''] @ response_delta y_reply @ response_delta x_reply,
         active_speakers := []\<rparr>)) = Inr False"
  by (simp_all add: xy_defs run_defs emit_defs)

theorem two_responses_one_round_witness:
  "''Y'' \<noteq> ''X''
   \<and> set (active_speakers (run fixed_hooks [InStart task_start] (xy_manager None None (Many [''X'', ''Y'']))))
       = {''Y'', ''X''}
   \<and> distinct (active_speakers (run fixed_hooks [InStart task_start] (xy_manager None None (Many [''X'', ''Y'']))))
   \<and> fst (handle_agent_response fixed_hooks y_reply
         (run fixed_hooks [InStart task_start] (xy_manager None None (Many [''X'', ''Y''])))) = None
   \<and> active_speakers (snd (handle_agent_response fixed_hooks y_reply
         (run fixed_hooks [InStart task_start] (xy_manager None None (Many [''X'', ''Y'']))))) = [''X'']
   \<and> trace (snd (handle_agent_response fixed_hooks y_reply
         (run fixed_hooks [InStart task_start] (xy_manager None None (Many [''X'', ''Y''])))))
       = trace (run fixed_hooks [InStart task_start] (xy_manager None None (Many [''X'', ''Y''])))
   \<and> message_thread (snd (handle_agent_response fixed_hooks x_reply (snd (handle_agent_response fixed_hooks y_reply
         (run fixed_hooks [InStart task_start] (xy_manager None None (Many [''X'', ''Y''])))))))
       = [TextMessage ''task'' ''user'', TextMessage ''from Y'' ''Y'',
          TextMessage ''thinking'' ''X'', TextMessage ''from X'' ''X'']
   \<and> filter is_Select (trace (snd (handle_agent_response fixed_hooks x_reply
         (snd (handle_agent_response fixed_hooks y_reply
            (run fixed_hooks [InStart task_start] (xy_manager None None (Many [''X'', ''Y'']))))))))
       = [Select [TextMessage ''task'' ''user''],
          Select [TextMessage ''task'' ''user'', TextMessage ''from Y'' ''Y'',
                  TextMessage ''thinking'' ''X'', TextMessage ''from X'' ''X'']]"
proof -
  let ?m = "run fixed_hooks [InStart task_start] (xy_manager None None (Many [''X'', ''Y'']))"
  have ne: "''Y'' \<noteq> ''X''" by simp
  have s: "set (active_speakers ?m) = {''Y'', ''X''}" and d: "distinct (active_speakers ?m)"
    unfolding round_of_x_and_y by auto
  have y: "response_name y_reply = ''Y''" and x: "response_name x_reply = ''X''"
    by (simp_all add: x_reply_def y_reply_def)
  have dx: "response_delta x_reply = [TextMessage ''thinking'' ''X'', TextMessage ''from X'' ''X'']"
    and dy: "response_delta y_reply = [TextMessage ''from Y'' ''Y'']"
    by (simp_all add: x_reply_def y_reply_def)
  note t = two_responses_one_round [OF ne s d y x, of fixed_hooks]
  from t have first: "handle_agent_response fixed_hooks y_reply ?m =
           (None, ?m\<lparr>message_thread := message_thread ?m @ response_delta y_reply,
                       active_speakers := [''X'']\<rparr>)"
    by (elim conjE)
  from t have thread: "message_thread (snd (handle_agent_response fixed_hooks x_reply
        (snd (handle_agent_response fixed_hooks y_reply ?m))))
          = message_thread ?m @ response_delta y_reply @ response_delta x_reply"
    by (elim conjE)
  from t have sel: "filter is_Select (trace (snd (handle_agent_response fixed_hooks x_reply
        (snd (handle_agent_response fixed_hooks y_reply ?m)))))
          = filter is_Select (trace ?m)
            @ (if fst (apply_termination_condition fixed_hooks (response_delta x_reply) True
                        (?m\<lparr>message_thread := message_thread ?m @ response_delta y_reply @ response_delta x_reply,
                            active_speakers := []\<rparr>)) = Inr False
               then [Select (message_thread ?m @ response_delta y_reply @ response_delta x_reply)]
               else [])"
    by (elim conjE)
  have sel': "filter is_Select (trace (snd (handle_agent_response fixed_hooks x_reply
        (snd (handle_agent_response fixed_hooks y_reply ?m)))))
       = [Select [TextMessage ''task'' ''user''],
          Select [TextMessage ''task'' ''user'', TextMessage ''from Y'' ''Y'',
                  TextMessage ''thinking'' ''X'', TextMessage ''from X'' ''X'']]"
    unfolding sel round_of_x_and_y(2,3) unfolding round_of_x_and_y(4) unfolding dx dy by simp
  have thread': "message_thread (snd (handle_agent_response fixed_hooks x_reply
        (snd (handle_agent_response fixed_hooks y_reply ?m))))
       = [TextMessage ''task'' ''user'', TextMessage ''from Y'' ''Y'',
          TextMessage ''thinking'' ''X'', TextMessage ''from X'' ''X'']"
    unfolding thread round_of_x_and_y(2) dx dy by simp
  have f: "fst (handle_agent_response fixed_hooks y_reply ?m) = None"
    "active_speakers (snd (handle_agent_response fixed_hooks y_reply ?m)) = [''X'']"
    "trace (snd (handle_agent_response fixed_hooks y_reply ?m)) = trace ?m"
    unfolding first by simp_all
  from ne s d f thread' sel' show ?thesis by (intro conjI)
qed


section \<open>A start after the conversation has terminated\<close>

lemma atc_trace_extends:
  assumes "apply_termination_condition h d inc m = (r, m')"
  shows "\<exists>rest. trace m' = trace m @ rest"
  using assms
  by (auto simp: apply_termination_condition_def apply_max_turns_def emit_defs
      split: option.splits if_splits sum.splits prod.splits)

lemma transition_trace_extends:
  assumes "transition_to_next_speakers h m = (r, m')"
  shows "\<exists>rest. trace m' = trace m @ rest"
  using assms
  by (auto simp: transition_to_next_speakers_def log_speaker_selection_def emit_defs
      request_speakers_ok
      split: option.splits if_splits sum.splits prod.splits)

lemma relay_trace_extends:
  "\<exists>rest. trace (relay_start_messages msgs ot m) = trace m @ rest"
  by (simp add: relay_start_messages_def put_all_eq publish_message_def update_message_thread_def
      Let_def)

lemma start_runs_validator:
  assumes "\<not> already_terminated h m" and "handle_start h msg m = (r, m')"
  shows "\<exists>rest. trace m' = trace m @ Validate (messages msg) # rest"
proof -
  obtain v sv where v: "validate_group_state h (sub m) (messages msg) = (v, sv)"
    by (cases "validate_group_state h (sub m) (messages msg)")
  show ?thesis
  proof (cases v)
    case (Some e)
    with v assms show ?thesis by (auto simp: handle_start_def)
  next
    case None
    note sv = start_validated [OF assms(1) v [unfolded None]]
    show ?thesis
    proof (cases "messages msg")
      case nomsg: None
      with sv assms(2)
      have "transition_to_next_speakers h (m\<lparr>sub := sv, trace := trace m @ [Validate None]\<rparr>) = (r, m')"
        by simp
      from transition_trace_extends [OF this] nomsg show ?thesis by auto
    next
      case (Some msgs)
      let ?m1 = "m\<lparr>sub := sv, trace := trace m @ [Validate (Some msgs)]\<rparr>"
      let ?m5 = "relay_start_messages msgs (output_task_messages msg) ?m1"
      obtain a m6 where a: "apply_termination_condition h msgs False ?m5 = (a, m6)"
        by (cases "apply_termination_condition h msgs False ?m5")
      obtain ra where ra: "trace ?m5 = trace ?m1 @ ra"
        using relay_trace_extends [of msgs "output_task_messages msg" ?m1] by blast
      obtain rb where rb: "trace m6 = trace ?m5 @ rb"
        using atc_trace_extends [OF a] by blast
      have six: "trace m6 = trace m @ Validate (messages msg) # (ra @ rb)"
        using ra rb Some by simp
      show ?thesis
      proof (cases a)
        case (Inl e)
        with a sv Some assms(2) have "m' = m6" by simp
        with six show ?thesis by blast
      next
        case (Inr b)
        show ?thesis
        proof (cases b)
          case True
          with a Inr sv Some assms(2) have "m' = m6" by simp
          with six show ?thesis by blast
        next
          case False
          with a Inr sv Some assms(2) have "transition_to_next_speakers h m6 = (r, m')" by simp
          from transition_trace_extends [OF this] obtain rc where "trace m' = trace m6 @ rc" by blast
          with six have "trace m' = trace m @ Validate (messages msg) # (ra @ rb @ rc)" by simp
          then show ?thesis by blast
        qed
      qed
    qed
  qed
qed

lemma start_appends_messages:
  assumes "\<not> already_terminated h m"
    and "validate_group_state h (sub m) (messages msg) = (None, sv)"
    and "messages msg = Some msgs"
  shows "message_thread (snd (handle_start h msg m)) = message_thread m @ msgs"
proof -
  let ?m1 = "m\<lparr>sub := sv, trace := trace m @ [Validate (Some msgs)]\<rparr>"
  let ?m5 = "relay_start_messages msgs (output_task_messages msg) ?m1"
  note sv = start_validated [OF assms(1,2)]
  obtain a m6 where a: "apply_termination_condition h msgs False ?m5 = (a, m6)"
    by (cases "apply_termination_condition h msgs False ?m5")
  have six: "message_thread m6 = message_thread m @ msgs"
    using atc_frame(1) [OF a] by (simp add: relay_frame)
  show ?thesis
  proof (cases a)
    case (Inl e)
    with a sv assms(3) six show ?thesis by simp
  next
    case (Inr b)
    show ?thesis
    proof (cases b)
      case True
      with a Inr sv assms(3) six show ?thesis by simp
    next
      case False
      obtain r m' where t: "transition_to_next_speakers h m6 = (r, m')"
        by (cases "transition_to_next_speakers h m6")
      with a Inr False sv assms(3) have "handle_start h msg m = (r, m')" by simp
      with transition_frame(1) [OF t] six show ?thesis by simp
    qed
  qed
qed

lemma stop_leaves_restartable:
  assumes "\<forall>t. \<not> tc_terminated h (tc_reset h t)"
    and "apply_termination_condition h d inc m = (Inr True, m')"
  shows "\<not> already_terminated h m'"
proof (cases "termination_condition m")
  case None
  with atc_frame(12) [OF assms(2)] show ?thesis by (simp add: already_terminated_def)
next
  case (Some tc)
  from stop_resets [OF assms(2) Some] assms(1) show ?thesis
    by (auto simp: already_terminated_def)
qed


lemma xy_terminated: "already_terminated fixed_hooks (xy_manager (Some True) mt sel)"
  by (simp add: already_terminated_def)

text \<open>
  C2 (as amended). The test at the head of \<^verbatim>\<open>handle_start\<close> asks whether a
  termination condition is set and its \<^verbatim>\<open>terminated\<close> flag is up. When it is,
  handling a start message puts exactly one more termination event in the output queue,
  with the stop message "The group chat has already terminated.", and returns: the
  thread, the turn counter and the active speakers are as before, and the only effects
  are the publication and the queue entry of that event, so that neither the validator,
  nor the termination condition, nor the speaker selector is called. A manager that has
  itself stopped the conversation is not in that state: every stop through
  \<^verbatim>\<open>_apply_termination_condition\<close> resets the condition, so for a condition whose
  \<^verbatim>\<open>reset\<close> takes the flag down the test fails afterwards. A start message is then
  handled as a new start: the validator is called first, and the start messages it
  accepts are appended to the thread.
\<close>

theorem start_when_already_terminated:
  "(already_terminated h m \<longrightarrow>
      handle_start h msg m =
           (None, m\<lparr>output_message_queue := output_message_queue m
                        @ [QTermination (GroupChatTermination
                             (StopMessage ''The group chat has already terminated.'' (name m)) None)],
                    trace := trace m
                        @ [Publish (output_topic_type m) (TerminationEvent (GroupChatTermination
                             (StopMessage ''The group chat has already terminated.'' (name m)) None)),
                           Put (QTermination (GroupChatTermination
                             (StopMessage ''The group chat has already terminated.'' (name m)) None))]\<rparr>)
     \<and> terminations (output_message_queue (snd (handle_start h msg m)))
           = terminations (output_message_queue m) + 1
     \<and> message_thread (snd (handle_start h msg m)) = message_thread m
     \<and> current_turn (snd (handle_start h msg m)) = current_turn m
     \<and> active_speakers (snd (handle_start h msg m)) = active_speakers m
     \<and> termination_condition (snd (handle_start h msg m)) = termination_condition m
     \<and> sub (snd (handle_start h msg m)) = sub m)
   \<and> ((\<forall>t. \<not> tc_terminated h (tc_reset h t))
        \<and> apply_termination_condition h delta inc m = (Inr True, ma) \<longrightarrow>
        \<not> already_terminated h ma)
   \<and> (\<not> already_terminated h m \<longrightarrow>
        (\<exists>rest. trace (snd (handle_start h msg m)) = trace m @ Validate (messages msg) # rest))
   \<and> (\<not> already_terminated h m
        \<and> validate_group_state h (sub m) (messages msg) = (None, sv)
        \<and> messages msg = Some msgs \<longrightarrow>
        message_thread (snd (handle_start h msg m)) = message_thread m @ msgs)"
proof (intro conjI impI)
  assume "(\<forall>t. \<not> tc_terminated h (tc_reset h t))
        \<and> apply_termination_condition h delta inc m = (Inr True, ma)"
  then show "\<not> already_terminated h ma" using stop_leaves_restartable by blast
next
  assume nt: "\<not> already_terminated h m"
  obtain r m' where res: "handle_start h msg m = (r, m')" by (cases "handle_start h msg m")
  from start_runs_validator [OF nt res]
  show "\<exists>rest. trace (snd (handle_start h msg m)) = trace m @ Validate (messages msg) # rest"
    by (simp add: res)
next
  assume a: "\<not> already_terminated h m
        \<and> validate_group_state h (sub m) (messages msg) = (None, sv)
        \<and> messages msg = Some msgs"
  then have "\<not> already_terminated h m" "validate_group_state h (sub m) (messages msg) = (None, sv)"
    "messages msg = Some msgs" by blast+
  then show "message_thread (snd (handle_start h msg m)) = message_thread m @ msgs"
    by (rule start_appends_messages)
qed (simp_all add: handle_start_def emit_defs)

lemma restarted_after_limit:
  "terminations (output_message_queue
      (run fixed_hooks [InStart task_start, InResponse x_reply] (xy_manager None (Some 1) (Single ''X'')))) = 1"
  "termination_condition
      (run fixed_hooks [InStart task_start, InResponse x_reply] (xy_manager None (Some 1) (Single ''X''))) = None"
  "message_thread
      (run fixed_hooks [InStart task_start, InResponse x_reply] (xy_manager None (Some 1) (Single ''X'')))
     = [TextMessage ''task'' ''user'', TextMessage ''thinking'' ''X'', TextMessage ''from X'' ''X'']"
  "sub (run fixed_hooks [InStart task_start, InResponse x_reply] (xy_manager None (Some 1) (Single ''X'')))
     = Single ''X''"
  by (simp_all add: xy_defs run_defs emit_defs)

theorem restart_after_stop_counterexample:
  "terminations (output_message_queue
      (run fixed_hooks [InStart task_start, InResponse x_reply] (xy_manager None (Some 1) (Single ''X'')))) = 1
   \<and> fst (handle_start fixed_hooks task_start
        (run fixed_hooks [InStart task_start, InResponse x_reply] (xy_manager None (Some 1) (Single ''X''))))
      = None
   \<and> terminations (output_message_queue (snd (handle_start fixed_hooks task_start
        (run fixed_hooks [InStart task_start, InResponse x_reply] (xy_manager None (Some 1) (Single ''X''))))))
      = 1
   \<and> message_thread (snd (handle_start fixed_hooks task_start
        (run fixed_hooks [InStart task_start, InResponse x_reply] (xy_manager None (Some 1) (Single ''X'')))))
      = [TextMessage ''task'' ''user'', TextMessage ''thinking'' ''X'', TextMessage ''from X'' ''X'',
         TextMessage ''task'' ''user'']
   \<and> active_speakers (snd (handle_start fixed_hooks task_start
        (run fixed_hooks [InStart task_start, InResponse x_reply] (xy_manager None (Some 1) (Single ''X'')))))
      = [''X'']
   \<and> filter is_Select (trace (snd (handle_start fixed_hooks task_start
        (run fixed_hooks [InStart task_start, InResponse x_reply] (xy_manager None (Some 1) (Single ''X''))))))
      = [Select [TextMessage ''task'' ''user''],
         Select [TextMessage ''task'' ''user'', TextMessage ''thinking'' ''X'', TextMessage ''from X'' ''X'',
                 TextMessage ''task'' ''user'']]
   \<and> terminations (output_message_queue
        (run fixed_hooks [InStart done_start] (xy_manager (Some False) None (Single ''X'')))) = 1
   \<and> terminations (output_message_queue
        (run fixed_hooks [InStart done_start, InStart task_start] (xy_manager (Some False) None (Single ''X''))))
      = 1
   \<and> message_thread
        (run fixed_hooks [InStart done_start, InStart task_start] (xy_manager (Some False) None (Single ''X'')))
      = [TextMessage ''DONE'' ''user'', TextMessage ''task'' ''user'']
   \<and> active_speakers
        (run fixed_hooks [InStart done_start, InStart task_start] (xy_manager (Some False) None (Single ''X'')))
      = [''X'']"
  by (simp add: xy_defs run_defs emit_defs)

theorem start_when_already_terminated_witness:
  "already_terminated fixed_hooks (xy_manager (Some True) None (Single ''X''))
   \<and> fst (handle_start fixed_hooks task_start (xy_manager (Some True) None (Single ''X''))) = None
   \<and> output_message_queue (snd (handle_start fixed_hooks task_start (xy_manager (Some True) None (Single ''X''))))
      = [QTermination (GroupChatTermination (StopMessage ''The group chat has already terminated.'' ''manager'') None)]
   \<and> message_thread (snd (handle_start fixed_hooks task_start (xy_manager (Some True) None (Single ''X'')))) = []
   \<and> (\<forall>t. \<not> tc_terminated fixed_hooks (tc_reset fixed_hooks t))
   \<and> (\<exists>ma. apply_termination_condition fixed_hooks [TextMessage ''DONE'' ''user''] False
              (xy_manager (Some False) None (Single ''X'')) = (Inr True, ma)
         \<and> \<not> already_terminated fixed_hooks ma)
   \<and> \<not> already_terminated fixed_hooks
        (run fixed_hooks [InStart task_start, InResponse x_reply] (xy_manager None (Some 1) (Single ''X'')))
   \<and> messages task_start = Some [TextMessage ''task'' ''user'']
   \<and> (\<exists>rest. trace (snd (handle_start fixed_hooks task_start
          (run fixed_hooks [InStart task_start, InResponse x_reply] (xy_manager None (Some 1) (Single ''X'')))))
        = trace (run fixed_hooks [InStart task_start, InResponse x_reply]
                   (xy_manager None (Some 1) (Single ''X'')))
          @ Validate (Some [TextMessage ''task'' ''user'']) # rest)
   \<and> message_thread (snd (handle_start fixed_hooks task_start
          (run fixed_hooks [InStart task_start, InResponse x_reply] (xy_manager None (Some 1) (Single ''X'')))))
        = [TextMessage ''task'' ''user'', TextMessage ''thinking'' ''X'', TextMessage ''from X'' ''X'',
           TextMessage ''task'' ''user'']"
proof -
  let ?mt = "xy_manager (Some True) None (Single ''X'')"
  let ?mr = "run fixed_hooks [InStart task_start, InResponse x_reply] (xy_manager None (Some 1) (Single ''X''))"
  have t: "already_terminated fixed_hooks ?mt" by (rule xy_terminated)
  have contract: "\<forall>t. \<not> tc_terminated fixed_hooks (tc_reset fixed_hooks t)" by simp
  have nt: "\<not> already_terminated fixed_hooks ?mr"
    unfolding already_terminated_def restarted_after_limit by simp
  have ms: "messages task_start = Some [TextMessage ''task'' ''user'']" by (simp add: task_start_def)
  have val: "validate_group_state fixed_hooks (sub ?mr) (messages task_start) = (None, Single ''X'')"
    unfolding restarted_after_limit by simp
  obtain ma where a: "apply_termination_condition fixed_hooks [TextMessage ''DONE'' ''user''] False
      (xy_manager (Some False) None (Single ''X'')) = (Inr True, ma)"
    by (simp add: done_stops)
  note th = start_when_already_terminated [where h = fixed_hooks and msg = task_start]
  from th [where m = ?mt] t
  have one: "fst (handle_start fixed_hooks task_start ?mt) = None
      \<and> output_message_queue (snd (handle_start fixed_hooks task_start ?mt))
          = [QTermination (GroupChatTermination
               (StopMessage ''The group chat has already terminated.'' ''manager'') None)]
      \<and> message_thread (snd (handle_start fixed_hooks task_start ?mt)) = []"
    by simp
  from th [where m = "xy_manager (Some False) None (Single ''X'')"
      and delta = "[TextMessage ''DONE'' ''user'']" and inc = False and ma = ma
      and sv = "Single ''X''" and msgs = "[]"]
  have "(\<forall>t. \<not> tc_terminated fixed_hooks (tc_reset fixed_hooks t))
        \<and> apply_termination_condition fixed_hooks [TextMessage ''DONE'' ''user''] False
             (xy_manager (Some False) None (Single ''X'')) = (Inr True, ma) \<longrightarrow>
        \<not> already_terminated fixed_hooks ma"
    by (elim conjE)
  with contract a have two: "\<not> already_terminated fixed_hooks ma" by blast
  note thr = th [where m = ?mr and sv = "Single ''X''" and msgs = "[TextMessage ''task'' ''user'']"
      and delta = "[]" and inc = False and ma = ?mr]
  from thr
  have three: "\<not> already_terminated fixed_hooks ?mr \<longrightarrow>
        (\<exists>rest. trace (snd (handle_start fixed_hooks task_start ?mr))
            = trace ?mr @ Validate (messages task_start) # rest)"
    by (elim conjE)
  from thr
  have four: "\<not> already_terminated fixed_hooks ?mr
        \<and> validate_group_state fixed_hooks (sub ?mr) (messages task_start) = (None, Single ''X'')
        \<and> messages task_start = Some [TextMessage ''task'' ''user''] \<longrightarrow>
        message_thread (snd (handle_start fixed_hooks task_start ?mr))
          = message_thread ?mr @ [TextMessage ''task'' ''user'']"
    by (elim conjE)
  from three nt have three': "\<exists>rest. trace (snd (handle_start fixed_hooks task_start ?mr))
            = trace ?mr @ Validate (Some [TextMessage ''task'' ''user'']) # rest"
    unfolding ms by blast
  from four nt val ms have "message_thread (snd (handle_start fixed_hooks task_start ?mr))
          = message_thread ?mr @ [TextMessage ''task'' ''user'']"
    by blast
  then have four': "message_thread (snd (handle_start fixed_hooks task_start ?mr))
          = [TextMessage ''task'' ''user'', TextMessage ''thinking'' ''X'', TextMessage ''from X'' ''X'',
             TextMessage ''task'' ''user'']"
    unfolding restarted_after_limit(3) by simp
  from t one contract a two nt ms three' four' show ?thesis by blast
qed


end
